theory Spec2Isabelle
  imports Complex_Main "HOL-Library.Word"
begin

text \<open>
  A model of \<open>server.js\<close>, the backend of the Kozani assistant: the handler of
  \<open>POST /api/kozani-chat\<close>, the handler of \<open>POST /login\<close> and the helpers they call.
  The file holds two revisions of the server; the later one (from line 118 on), which has
  the store and the login, is the one modelled, and line numbers are those of the file.
  A handler is a function from the world before the request to the response and the
  world after it; a thrown exception is a value \<open>Inl e\<close>.
\<close>

section \<open>JavaScript values\<close>

text \<open>
  A JavaScript string is a sequence of UTF-16 code units. \<open>ascii\<close> embeds an ASCII
  literal; a code unit beyond ASCII is written as a number (\<open>0x2019\<close> is the right
  single quotation mark of the apology texts).
\<close>

type_synonym jstring = "16 word list"

definition ascii :: "string \<Rightarrow> jstring" where
  "ascii s = map (\<lambda>c. of_nat (of_char c)) s"

text \<open>
  The values a handler of \<open>server.js\<close> meets: what \<open>JSON.parse\<close> produces, and
  \<open>undefined\<close> for an absent property. An object is the list of its own properties
  (the first entry of a key is the property). A number is kept as a rational; its
  printing is left to the runtime (\<open>Number_toString\<close> below).
\<close>

datatype js =
    JUndefined
  | JNull
  | JBool bool
  | JNum rat
  | JStr jstring
  | JArr "js list"
  | JObj "(jstring \<times> js) list"

datatype error =
    TypeError jstring
  | StoreError jstring
  | GroqError jstring
  | BcryptError jstring

text \<open>\<open>!v\<close> is \<open>\<not> truthy v\<close>: the falsy values are undefined, null, false, 0 and "".\<close>

fun truthy :: "js \<Rightarrow> bool" where
  "truthy JUndefined = False"
| "truthy JNull = False"
| "truthy (JBool b) = b"
| "truthy (JNum r) = (r \<noteq> 0)"
| "truthy (JStr s) = (s \<noteq> [])"
| "truthy (JArr xs) = True"
| "truthy (JObj kvs) = True"

fun nullish :: "js \<Rightarrow> bool" where
  "nullish JUndefined = True"
| "nullish JNull = True"
| "nullish v = False"

text \<open>
  \<open>v.k\<close> for the property names the handlers read (\<open>query\<close>, \<open>text\<close>, \<open>role\<close>, ...):
  none of them is defined by a prototype, so only an object's own property is found.
  Reading a property of undefined or null throws.
\<close>

fun field :: "js \<Rightarrow> jstring \<Rightarrow> js" where
  "field (JObj kvs) k = (case map_of kvs k of Some v \<Rightarrow> v | None \<Rightarrow> JUndefined)"
| "field v k = JUndefined"

definition get :: "js \<Rightarrow> jstring \<Rightarrow> error + js" where
  "get v k =
     (if nullish v then Inl (TypeError (ascii ''Cannot read properties of undefined or null''))
      else Inr (field v k))"

text \<open>\<open>v[0]\<close> on a value that is not undefined or null.\<close>

fun index0 :: "js \<Rightarrow> js" where
  "index0 (JArr []) = JUndefined"
| "index0 (JArr (x # xs)) = x"
| "index0 (JStr []) = JUndefined"
| "index0 (JStr (c # cs)) = JStr [c]"
| "index0 (JObj kvs) = field (JObj kvs) (ascii ''0'')"
| "index0 v = JUndefined"

text \<open>A destructuring default \<open>{ k = d }\<close> applies to undefined only, not to null.\<close>

definition default_to :: "js \<Rightarrow> js \<Rightarrow> js" where
  "default_to v d = (if v = JUndefined then d else v)"

text \<open>
  \<open>String(v)\<close> and \<open>Array.prototype.join\<close>. An array prints as its elements joined by
  a comma; \<open>join\<close> prints undefined and null as the empty string. A parsed object prints
  as \<open>[object Object]\<close>, unless it has an own property \<open>toString\<close>: that value is not
  callable, \<open>valueOf\<close> gives no primitive either, and the conversion throws.
\<close>

fun js_toString :: "(rat \<Rightarrow> jstring) \<Rightarrow> js \<Rightarrow> error + jstring"
  and js_join :: "(rat \<Rightarrow> jstring) \<Rightarrow> jstring \<Rightarrow> js list \<Rightarrow> error + jstring" where
  "js_toString nts JUndefined = Inr (ascii ''undefined'')"
| "js_toString nts JNull = Inr (ascii ''null'')"
| "js_toString nts (JBool b) = Inr (if b then ascii ''true'' else ascii ''false'')"
| "js_toString nts (JNum r) = Inr (nts r)"
| "js_toString nts (JStr s) = Inr s"
| "js_toString nts (JArr xs) = js_join nts (ascii '','') xs"
| "js_toString nts (JObj kvs) =
     (if map_of kvs (ascii ''toString'') \<noteq> None
      then Inl (TypeError (ascii ''Cannot convert object to primitive value''))
      else Inr (ascii ''[object Object]''))"
| "js_join nts sep [] = Inr []"
| "js_join nts sep [x] = (if nullish x then Inr [] else js_toString nts x)"
| "js_join nts sep (x # y # ys) =
     (case (if nullish x then Inr [] else js_toString nts x) of
        Inl e \<Rightarrow> Inl e
      | Inr s \<Rightarrow>
          (case js_join nts sep (y # ys) of
             Inl e \<Rightarrow> Inl e
           | Inr t \<Rightarrow> Inr (s @ sep @ t)))"

text \<open>
  \<open>String.prototype.trim\<close> removes white space and line terminators at both ends.
\<close>

definition is_js_space :: "16 word \<Rightarrow> bool" where
  "is_js_space c \<longleftrightarrow>
     c \<in> {0x9, 0xA, 0xB, 0xC, 0xD, 0x20, 0xA0, 0x1680, 0x2028, 0x2029, 0x202F, 0x205F,
          0x3000, 0xFEFF}
     \<or> (0x2000 \<le> c \<and> c \<le> 0x200A)"

definition trim :: "jstring \<Rightarrow> jstring" where
  "trim s = rev (dropWhile is_js_space (rev (dropWhile is_js_space s)))"

section \<open>Collaborators: runtime, generation service, credential library, store\<close>

text \<open>
  A turn of the prompt, and the request object handed to
  \<open>groq.chat.completions.create\<close>.
\<close>

record turn =
  role :: js
  content :: js

record groq_request =
  model :: jstring
  messages :: "turn list"
  temperature :: rat
  max_tokens :: nat

text \<open>
  What the libraries compute is not in \<open>server.js\<close>; their behaviour is a parameter.
  Each of them either returns or throws.
\<close>

record env =
  Number_toString :: "rat \<Rightarrow> jstring"
  groq_create :: "groq_request \<Rightarrow> error + js"
  bcrypt_hash :: "js \<Rightarrow> nat \<Rightarrow> error + jstring"
  bcrypt_compare :: "js \<Rightarrow> js \<Rightarrow> error + bool"

text \<open>The four statements \<open>server.js\<close> sends through \<open>pool.query\<close>, with their parameters.\<close>

datatype sql =
    SELECT_user_by_phone js
  | INSERT_user js js js
  | INSERT_message js js js
  | SELECT_recent_messages js nat

datatype event =
    PoolQuery sql
  | GroqCreate groq_request
  | ConsoleError jstring error

text \<open>
  Modelled from the spec: the schema of the tables \<open>users\<close> and \<open>messages\<close> is not in the
  source. A user has an id given by the store, a phone, a credential hash and an optional
  name; a message belongs to one user and has a role, a content and a creation timestamp
  given by the store. A row keeps the values bound to the statement that inserted it.
\<close>

record user_row =
  u_id :: nat
  u_phone :: js
  u_password_hash :: js
  u_name :: js
  u_created_at :: nat

record message_row =
  m_user_id :: js
  m_role :: js
  m_content :: js
  m_created_at :: nat

text \<open>
  The world around one request: the tables, the store's clock and id sequence, the
  outcome of the coming \<open>pool.query\<close> calls (\<open>Some d\<close>: the call fails with detail \<open>d\<close>;
  no entry left: it succeeds), and the calls made so far.
\<close>

record world =
  users_table :: "user_row list"
  messages_table :: "message_row list"
  clock :: nat
  user_seq :: nat
  faults :: "jstring option list"
  trace :: "event list"

definition user_select :: "user_row \<Rightarrow> js" where
  "user_select u =
     JObj [(ascii ''id'', JNum (of_nat (u_id u))),
           (ascii ''phone'', u_phone u),
           (ascii ''password_hash'', u_password_hash u),
           (ascii ''name'', u_name u)]"

definition user_returning :: "user_row \<Rightarrow> js" where
  "user_returning u =
     JObj [(ascii ''id'', JNum (of_nat (u_id u))),
           (ascii ''phone'', u_phone u),
           (ascii ''name'', u_name u),
           (ascii ''created_at'', JNum (of_nat (u_created_at u)))]"

definition message_select :: "message_row \<Rightarrow> js" where
  "message_select m = JObj [(ascii ''role'', m_role m), (ascii ''content'', m_content m)]"

text \<open>\<open>WHERE user_id = $1\<close>: a comparison with NULL selects nothing.\<close>

definition messages_of :: "js \<Rightarrow> message_row list \<Rightarrow> message_row list" where
  "messages_of user_id ms = filter (\<lambda>m. m_user_id m = user_id \<and> \<not> nullish user_id) ms"

text \<open>\<open>ORDER BY created_at DESC\<close>.\<close>

definition newest_first :: "message_row list \<Rightarrow> message_row list" where
  "newest_first ms = rev (sort_key m_created_at ms)"

fun run_sql :: "world \<Rightarrow> sql \<Rightarrow> js list \<times> world" where
  "run_sql w (SELECT_user_by_phone phone) =
     (map user_select (filter (\<lambda>u. u_phone u = phone \<and> \<not> nullish phone) (users_table w)), w)"
| "run_sql w (INSERT_user phone password_hash name) =
     (let u = \<lparr>u_id = user_seq w, u_phone = phone, u_password_hash = password_hash,
                u_name = name, u_created_at = clock w\<rparr>
      in ([user_returning u],
          w\<lparr>users_table := users_table w @ [u], user_seq := Suc (user_seq w),
            clock := Suc (clock w)\<rparr>))"
| "run_sql w (INSERT_message user_id the_role the_content) =
     ([],
      w\<lparr>messages_table := messages_table w @
           [\<lparr>m_user_id = user_id, m_role = the_role, m_content = the_content,
             m_created_at = clock w\<rparr>],
         clock := Suc (clock w)\<rparr>)"
| "run_sql w (SELECT_recent_messages user_id limit) =
     (map message_select (take limit (newest_first (messages_of user_id (messages_table w)))), w)"

section \<open>The helpers of server.js\<close>

text \<open>
  \<open>query(sql, params)\<close> (lines 159-162): one call of \<open>pool.query\<close>, which returns the
  rows or throws. The call is recorded and takes the next outcome.
\<close>

definition next_fault :: "world \<Rightarrow> jstring option" where
  "next_fault w = (case faults w of [] \<Rightarrow> None | f # fs \<Rightarrow> f)"

definition query :: "world \<Rightarrow> sql \<Rightarrow> (error + js list) \<times> world" where
  "query w stmt =
     (let w1 = w\<lparr>trace := trace w @ [PoolQuery stmt], faults := tl (faults w)\<rparr>
      in case next_fault w of
           Some d \<Rightarrow> (Inl (StoreError d), w1)
         | None \<Rightarrow> (case run_sql w1 stmt of (rows, w2) \<Rightarrow> (Inr rows, w2)))"

definition console_error :: "world \<Rightarrow> jstring \<Rightarrow> error \<Rightarrow> world" where
  "console_error w label err = w\<lparr>trace := trace w @ [ConsoleError label err]\<rparr>"

text \<open>\<open>rows[0]\<close>; \<open>findUserByPhone\<close> (lines 166-172) and \<open>createUser\<close> (lines 175-186).\<close>

definition first_row :: "js list \<Rightarrow> js" where
  "first_row rows = (case rows of [] \<Rightarrow> JUndefined | r # rs \<Rightarrow> r)"

definition findUserByPhone :: "world \<Rightarrow> js \<Rightarrow> (error + js) \<times> world" where
  "findUserByPhone w phone =
     (case query w (SELECT_user_by_phone phone) of
        (Inl e, w1) \<Rightarrow> (Inl e, w1)
      | (Inr rows, w1) \<Rightarrow> (Inr (if truthy (first_row rows) then first_row rows else JNull), w1))"

definition createUser :: "env \<Rightarrow> world \<Rightarrow> js \<Rightarrow> js \<Rightarrow> js \<Rightarrow> (error + js) \<times> world" where
  "createUser env w phone password name =
     (case bcrypt_hash env password 10 of
        Inl e \<Rightarrow> (Inl e, w)
      | Inr passwordHash \<Rightarrow>
          (case query w (INSERT_user phone (JStr passwordHash) name) of
             (Inl e, w1) \<Rightarrow> (Inl e, w1)
           | (Inr rows, w1) \<Rightarrow> (Inr (first_row rows), w1)))"

text \<open>\<open>saveMessage\<close> (lines 266-276): a failed insert is logged and not thrown again.\<close>

definition saveMessage :: "world \<Rightarrow> js \<Rightarrow> js \<Rightarrow> js \<Rightarrow> world" where
  "saveMessage w user_id the_role the_content =
     (case query w (INSERT_message user_id the_role the_content) of
        (Inl e, w1) \<Rightarrow> console_error w1 (ascii ''Error saving message:'') e
      | (Inr rows, w1) \<Rightarrow> w1)"

text \<open>
  \<open>getRecentMessages\<close> (lines 278-290). The parameter \<open>limit = 10\<close>: \<open>None\<close> is the
  omitted argument. The rows come newest first and are reversed.
\<close>

definition getRecentMessages :: "world \<Rightarrow> js \<Rightarrow> nat option \<Rightarrow> (error + js list) \<times> world" where
  "getRecentMessages w user_id limit =
     (case query w (SELECT_recent_messages user_id (case limit of None \<Rightarrow> 10 | Some n \<Rightarrow> n)) of
        (Inl e, w1) \<Rightarrow> (Inl e, w1)
      | (Inr rows, w1) \<Rightarrow> (Inr (rev rows), w1))"

section \<open>POST /api/kozani-chat\<close>

record response =
  status :: nat
  body :: js

text \<open>
  The grounding block (line 320): \<open>snippets.map((s) => s.text)\<close>, joined with two line
  feeds between the texts. Only an array has \<open>map\<close>.
\<close>

fun map_text :: "js list \<Rightarrow> error + js list" where
  "map_text [] = Inr []"
| "map_text (s # ss) =
     (case get s (ascii ''text'') of
        Inl e \<Rightarrow> Inl e
      | Inr t \<Rightarrow> (case map_text ss of Inl e \<Rightarrow> Inl e | Inr ts \<Rightarrow> Inr (t # ts)))"

fun snippets_map_text :: "js \<Rightarrow> error + js list" where
  "snippets_map_text (JArr xs) = map_text xs"
| "snippets_map_text JUndefined =
     Inl (TypeError (ascii ''Cannot read properties of undefined or null''))"
| "snippets_map_text JNull =
     Inl (TypeError (ascii ''Cannot read properties of undefined or null''))"
| "snippets_map_text v = Inl (TypeError (ascii ''snippets.map is not a function''))"

definition grounding_of :: "env \<Rightarrow> js \<Rightarrow> error + jstring" where
  "grounding_of env snippets =
     (case snippets_map_text snippets of
        Inl e \<Rightarrow> Inl e
      | Inr ts \<Rightarrow> js_join (Number_toString env) [0xA, 0xA] ts)"

text \<open>
  The template literal of the system prompt (lines 323-349), before and after
  \<open>${grounding}\<close>; the whole is trimmed.
\<close>

definition prompt_head :: jstring where
  "prompt_head =
     [0xA] @
     ascii ''You are Kozani, an empathetic perinatal companion for expectant and new mothers,'' @ [0xA] @
     ascii ''especially in under-resourced settings.'' @ [0xA] @
     [0xA] @
     ascii ''Your goals:'' @ [0xA] @
     ascii ''- Listen with warmth and respect.'' @ [0xA] @
     ascii ''- Reflect their feelings back gently.'' @ [0xA] @
     ascii ''- Offer clear, simple, practical guidance.'' @ [0xA] @
     ascii ''- Encourage seeking professional help when needed.'' @ [0xA] @
     ascii ''- Never judge, shame, or blame.'' @ [0xA] @
     [0xA] @
     ascii ''Safety rules:'' @ [0xA] @
     ascii ''- DO NOT diagnose or prescribe medication.'' @ [0xA] @
     ascii ''- DO NOT give exact doses or treatment plans.'' @ [0xA] @
     ascii ''- DO NOT contradict local healthcare professionals.'' @ [0xA] @
     ascii ''- If there is any sign of danger (severe pain, heavy bleeding, trouble breathing, thoughts of self-harm),'' @ [0xA] @
     ascii ''  clearly advise the user to seek urgent medical help or visit a clinic/hospital as soon as possible.'' @ [0xA] @
     [0xA] @
     ascii ''Keep responses:'' @ [0xA] @
     ascii ''- Short (4'' @ [0x2013] @ ascii ''7 sentences).'' @ [0xA] @
     ascii ''- In plain, simple language.'' @ [0xA] @
     ascii ''- Emotionally validating.'' @ [0xA] @
     [0xA] @
     ascii ''Use this trusted information as background context when relevant (but do not quote it word-for-word):'' @ [0xA] @
     [0xA]"

definition prompt_tail :: jstring where
  "prompt_tail = [0xA] @ ascii ''    ''"

definition systemPrompt :: "jstring \<Rightarrow> jstring" where
  "systemPrompt grounding = trim (prompt_head @ grounding @ prompt_tail)"

text \<open>
  The loop \<open>for (const m of memoryMessages) groqMessages.push({ role: m.role, content: m.content })\<close>.
\<close>

fun push_memory :: "turn list \<Rightarrow> js list \<Rightarrow> error + turn list" where
  "push_memory groqMessages [] = Inr groqMessages"
| "push_memory groqMessages (m # ms) =
     (case get m (ascii ''role'') of
        Inl e \<Rightarrow> Inl e
      | Inr r \<Rightarrow>
          (case get m (ascii ''content'') of
             Inl e \<Rightarrow> Inl e
           | Inr c \<Rightarrow> push_memory (groqMessages @ [\<lparr>role = r, content = c\<rparr>]) ms))"

text \<open>
  \<open>completion.choices?.[0]?.message?.content\<close> (line 386): undefined as soon as a link
  of the chain is undefined or null; \<open>completion\<close> itself is read without \<open>?.\<close>.
\<close>

definition first_content :: "js \<Rightarrow> error + js" where
  "first_content completion =
     (case get completion (ascii ''choices'') of
        Inl e \<Rightarrow> Inl e
      | Inr choices \<Rightarrow>
          Inr (if nullish choices then JUndefined
               else if nullish (index0 choices) then JUndefined
               else if nullish (field (index0 choices) (ascii ''message'')) then JUndefined
               else field (field (index0 choices) (ascii ''message'')) (ascii ''content'')))"

text \<open>\<open>snippets.length > 0\<close> (line 402), and the three response bodies.\<close>

fun length_gt_0 :: "js \<Rightarrow> bool" where
  "length_gt_0 (JArr xs) = (length xs > 0)"
| "length_gt_0 (JStr s) = (length s > 0)"
| "length_gt_0 v = False"

definition empty_query_answer :: jstring where
  "empty_query_answer =
     ascii ''I didn'' @ [0x2019] @ ascii ''t receive anything to respond to.''"

definition fallback_answer :: jstring where
  "fallback_answer =
     ascii ''I'' @ [0x2019] @ ascii ''m sorry, I'' @ [0x2019] @
     ascii ''m struggling to respond right now.''"

definition backend_error_answer :: jstring where
  "backend_error_answer =
     ascii ''I'' @ [0x2019] @
     ascii ''m sorry, something went wrong while thinking. Please try again a bit later.''"

definition empty_query_response :: response where
  "empty_query_response =
     \<lparr>status = 400,
      body = JObj [(ascii ''answer'', JStr empty_query_answer),
                   (ascii ''safety'', JObj [(ascii ''ok'', JBool False),
                                           (ascii ''flags'', JArr [JStr (ascii ''empty_query'')])]),
                   (ascii ''meta'', JObj [(ascii ''model'', JStr (ascii ''none''))])]\<rparr>"

definition backend_error_response :: response where
  "backend_error_response =
     \<lparr>status = 500,
      body = JObj [(ascii ''answer'', JStr backend_error_answer),
                   (ascii ''safety'', JObj [(ascii ''ok'', JBool False),
                                           (ascii ''flags'', JArr [JStr (ascii ''backend_error'')])]),
                   (ascii ''meta'', JObj [(ascii ''model'', JStr (ascii ''none''))])]\<rparr>"

definition chat_response :: "js \<Rightarrow> js \<Rightarrow> js \<Rightarrow> js \<Rightarrow> response" where
  "chat_response answer snippets language client =
     \<lparr>status = 200,
      body = JObj [(ascii ''answer'', answer),
                   (ascii ''safety'', JObj [(ascii ''ok'', JBool True), (ascii ''flags'', JArr [])]),
                   (ascii ''meta'', JObj [(ascii ''model'', JStr (ascii ''llama-3.1-8b-instant'')),
                                         (ascii ''provider'', JStr (ascii ''groq'')),
                                         (ascii ''grounded'', JBool (length_gt_0 snippets)),
                                         (ascii ''language'', language),
                                         (ascii ''client'', client)])]\<rparr>"

definition chat_request :: "turn list \<Rightarrow> groq_request" where
  "chat_request groqMessages =
     \<lparr>model = ascii ''llama-3.1-8b-instant'', messages = groqMessages,
      temperature = 4 / 10, max_tokens = 400\<rparr>"

text \<open>
  The destructuring of \<open>req.body || {}\<close> (lines 301-307), with its defaults.
\<close>

definition body_or_empty :: "js \<Rightarrow> js" where
  "body_or_empty req_body = (if truthy req_body then req_body else JObj [])"

definition rawQuery_of :: "js \<Rightarrow> js" where
  "rawQuery_of req_body = field (body_or_empty req_body) (ascii ''query'')"

definition snippets_of :: "js \<Rightarrow> js" where
  "snippets_of req_body = default_to (field (body_or_empty req_body) (ascii ''snippets'')) (JArr [])"

definition language_of :: "js \<Rightarrow> js" where
  "language_of req_body =
     default_to (field (body_or_empty req_body) (ascii ''language'')) (JStr (ascii ''en''))"

definition client_of :: "js \<Rightarrow> js" where
  "client_of req_body = field (body_or_empty req_body) (ascii ''client'')"

definition user_id_of :: "js \<Rightarrow> js" where
  "user_id_of req_body = field (body_or_empty req_body) (ascii ''user_id'')"

text \<open>
  The body of the \<open>try\<close> block (lines 300-406): the response sent, or the error thrown,
  and the world as the calls made up to there have left it. The \<open>catch\<close> (lines 407-415)
  logs the error and answers with the fixed apology.
\<close>

definition kozani_chat_try :: "env \<Rightarrow> world \<Rightarrow> js \<Rightarrow> (error + response) \<times> world" where
  "kozani_chat_try env w req_body =
     (let rawQuery = rawQuery_of req_body;
          snippets = snippets_of req_body;
          language = language_of req_body;
          client = client_of req_body;
          user_id = user_id_of req_body
      in if \<not> truthy rawQuery then (Inr empty_query_response, w)
         else
           (case grounding_of env snippets of
              Inl e \<Rightarrow> (Inl e, w)
            | Inr grounding \<Rightarrow>
                (case (if truthy user_id then getRecentMessages w user_id (Some 8)
                       else (Inr [], w)) of
                   (Inl e, w1) \<Rightarrow> (Inl e, w1)
                 | (Inr memoryMessages, w1) \<Rightarrow>
                     (case push_memory
                             [\<lparr>role = JStr (ascii ''system''),
                               content = JStr (systemPrompt grounding)\<rparr>]
                             memoryMessages of
                        Inl e \<Rightarrow> (Inl e, w1)
                      | Inr ms \<Rightarrow>
                          (let groqMessages =
                                 ms @ [\<lparr>role = JStr (ascii ''user''), content = rawQuery\<rparr>];
                               w2 = w1\<lparr>trace := trace w1 @
                                       [GroqCreate (chat_request groqMessages)]\<rparr>
                           in case groq_create env (chat_request groqMessages) of
                                Inl e \<Rightarrow> (Inl e, w2)
                              | Inr completion \<Rightarrow>
                                  (case first_content completion of
                                     Inl e \<Rightarrow> (Inl e, w2)
                                   | Inr c \<Rightarrow>
                                       (let answer =
                                              (if nullish c then JStr fallback_answer else c);
                                            w3 = (if truthy user_id
                                                  then saveMessage
                                                         (saveMessage w2 user_id
                                                            (JStr (ascii ''user'')) rawQuery)
                                                         user_id (JStr (ascii ''assistant'')) answer
                                                  else w2)
                                        in (Inr (chat_response answer snippets language client),
                                            w3))))))))"

definition kozani_chat :: "env \<Rightarrow> world \<Rightarrow> js \<Rightarrow> response \<times> world" where
  "kozani_chat env w req_body =
     (case kozani_chat_try env w req_body of
        (Inr res, w') \<Rightarrow> (res, w')
      | (Inl err, w') \<Rightarrow>
          (backend_error_response,
           console_error w' (ascii ''Kozani /api/kozani-chat error:'') err))"

section \<open>POST /login\<close>

text \<open>
  Lines 219-261. Destructuring \<open>req.body\<close> throws when there is no body; the rows read
  from the store are objects, so their properties are read without failure.
\<close>

definition error_response :: "nat \<Rightarrow> string \<Rightarrow> response" where
  "error_response code msg = \<lparr>status = code, body = JObj [(ascii ''error'', JStr (ascii msg))]\<rparr>"

definition login_response :: "nat \<Rightarrow> js \<Rightarrow> bool \<Rightarrow> response" where
  "login_response code user is_new =
     \<lparr>status = code,
      body = JObj [(ascii ''user_id'', field user (ascii ''id'')),
                   (ascii ''name'', field user (ascii ''name'')),
                   (ascii ''phone'', field user (ascii ''phone'')),
                   (ascii ''is_new'', JBool is_new)]\<rparr>"

definition login_try :: "env \<Rightarrow> world \<Rightarrow> js \<Rightarrow> (error + response) \<times> world" where
  "login_try env w req_body =
     (if nullish req_body
      then (Inl (TypeError (ascii ''Cannot destructure property of undefined or null'')), w)
      else
        (let phone = field req_body (ascii ''phone'');
             password = field req_body (ascii ''password'');
             name = field req_body (ascii ''name'')
         in if \<not> truthy phone \<or> \<not> truthy password
            then (Inr (error_response 400 ''Phone and password are required.''), w)
            else
              (case findUserByPhone w phone of
                 (Inl e, w1) \<Rightarrow> (Inl e, w1)
               | (Inr existingUser, w1) \<Rightarrow>
                   if truthy existingUser
                   then
                     (case bcrypt_compare env password
                             (field existingUser (ascii ''password_hash'')) of
                        Inl e \<Rightarrow> (Inl e, w1)
                      | Inr ok \<Rightarrow>
                          if \<not> ok
                          then (Inr (error_response 401 ''Invalid phone or password.''), w1)
                          else (Inr (login_response 200 existingUser False), w1))
                   else
                     (case createUser env w1 phone password
                             (if truthy name then name else JNull) of
                        (Inl e, w2) \<Rightarrow> (Inl e, w2)
                      | (Inr user, w2) \<Rightarrow>
                          if nullish user
                          then (Inl (TypeError
                                  (ascii ''Cannot read properties of undefined or null'')), w2)
                          else (Inr (login_response 201 user True), w2)))))"

definition login :: "env \<Rightarrow> world \<Rightarrow> js \<Rightarrow> response \<times> world" where
  "login env w req_body =
     (case login_try env w req_body of
        (Inr res, w') \<Rightarrow> (res, w')
      | (Inl err, w') \<Rightarrow>
          (error_response 500 ''Server error during login.'',
           console_error w' (ascii ''Login error:'') err))"

section \<open>Notions used in the statements\<close>

text \<open>
  The calls a handler adds to the trace; the stored row as a prompt turn; the turn
  sequence of step 4 of the chat handler; the history the handler loads (none without a
  user id) and the world after loading it; the outcome of the \<open>i\<close>-th coming store call;
  and what \<open>saveMessage\<close> logs for an outcome.
\<close>

definition turn_of :: "message_row \<Rightarrow> turn" where
  "turn_of m = \<lparr>role = m_role m, content = m_content m\<rparr>"

definition prompt_turns :: "jstring \<Rightarrow> message_row list \<Rightarrow> js \<Rightarrow> turn list" where
  "prompt_turns grounding recent rawQuery =
     [\<lparr>role = JStr (ascii ''system''), content = JStr (systemPrompt grounding)\<rparr>]
     @ map turn_of recent
     @ [\<lparr>role = JStr (ascii ''user''), content = rawQuery\<rparr>]"

definition new_events :: "world \<Rightarrow> world \<Rightarrow> event list" where
  "new_events w w' = drop (length (trace w)) (trace w')"

definition recent_of :: "world \<Rightarrow> js \<Rightarrow> message_row list" where
  "recent_of w user_id =
     (if truthy user_id
      then rev (take 8 (newest_first (messages_of user_id (messages_table w))))
      else [])"

definition after_history :: "world \<Rightarrow> js \<Rightarrow> world" where
  "after_history w user_id =
     (if truthy user_id
      then w\<lparr>trace := trace w @ [PoolQuery (SELECT_recent_messages user_id 8)],
             faults := tl (faults w)\<rparr>
      else w)"

definition fault_at :: "world \<Rightarrow> nat \<Rightarrow> jstring option" where
  "fault_at w i = (if i < length (faults w) then faults w ! i else None)"

definition save_log :: "jstring option \<Rightarrow> event list" where
  "save_log f =
     (case f of
        None \<Rightarrow> []
      | Some d \<Rightarrow> [ConsoleError (ascii ''Error saving message:'') (StoreError d)])"

section \<open>Example requests, collaborators and worlds\<close>

text \<open>
  Concrete collaborators, worlds and request bodies, on which the statements below are
  evaluated. In \<open>demo_world\<close> user 1 has two stored messages, inserted out of order, and
  user 2 has one; in \<open>demo_world_long\<close> user 1 has nine.
\<close>

definition completion_with :: "js \<Rightarrow> js" where
  "completion_with c =
     JObj [(ascii ''choices'',
            JArr [JObj [(ascii ''message'',
                         JObj [(ascii ''role'', JStr (ascii ''assistant'')),
                               (ascii ''content'', c)])]])]"

definition demo_env :: env where
  "demo_env =
     \<lparr>Number_toString = (\<lambda>r. ascii ''0''),
      groq_create = (\<lambda>r. Inr (completion_with (JStr (ascii ''Please rest and drink water.'')))),
      bcrypt_hash = (\<lambda>p n. Inr (ascii ''$2a$10$abc'')),
      bcrypt_compare = (\<lambda>p h. Inr (p = JStr (ascii ''secret'')))\<rparr>"

definition demo_env_groq_down :: env where
  "demo_env_groq_down =
     demo_env\<lparr>groq_create := (\<lambda>r. Inl (GroqError (ascii ''429 rate limit'')))\<rparr>"

definition demo_env_null_reply :: env where
  "demo_env_null_reply = demo_env\<lparr>groq_create := (\<lambda>r. Inr (completion_with JNull))\<rparr>"

definition demo_env_empty_reply :: env where
  "demo_env_empty_reply = demo_env\<lparr>groq_create := (\<lambda>r. Inr (completion_with (JStr [])))\<rparr>"

definition demo_world :: world where
  "demo_world =
     \<lparr>users_table =
        [\<lparr>u_id = 1, u_phone = JStr (ascii ''0771''), u_password_hash = JStr (ascii ''$2a$10$abc''),
          u_name = JStr (ascii ''Rumbi''), u_created_at = 0\<rparr>],
      messages_table =
        [\<lparr>m_user_id = JNum 1, m_role = JStr (ascii ''assistant''),
          m_content = JStr (ascii ''Hello, how are you feeling?''), m_created_at = 4\<rparr>,
         \<lparr>m_user_id = JNum 2, m_role = JStr (ascii ''user''),
          m_content = JStr (ascii ''other''), m_created_at = 5\<rparr>,
         \<lparr>m_user_id = JNum 1, m_role = JStr (ascii ''user''),
          m_content = JStr (ascii ''Hi''), m_created_at = 3\<rparr>],
      clock = 10, user_seq = 2, faults = [], trace = []\<rparr>"

definition demo_world_saves_fail :: world where
  "demo_world_saves_fail =
     demo_world\<lparr>faults := [None, Some (ascii ''connection reset''), Some (ascii ''connection reset'')]\<rparr>"

definition demo_world_store_down :: world where
  "demo_world_store_down = demo_world\<lparr>faults := [Some (ascii ''connection refused'')]\<rparr>"

definition demo_chat :: js where
  "demo_chat =
     JObj [(ascii ''query'', JStr (ascii ''I feel tired'')),
           (ascii ''user_id'', JNum 1)]"

definition demo_turns :: "turn list" where
  "demo_turns =
     [\<lparr>role = JStr (ascii ''system''), content = JStr (systemPrompt [])\<rparr>,
      \<lparr>role = JStr (ascii ''user''), content = JStr (ascii ''Hi'')\<rparr>,
      \<lparr>role = JStr (ascii ''assistant''), content = JStr (ascii ''Hello, how are you feeling?'')\<rparr>,
      \<lparr>role = JStr (ascii ''user''), content = JStr (ascii ''I feel tired'')\<rparr>]"

definition demo_row :: "nat \<Rightarrow> message_row" where
  "demo_row t =
     \<lparr>m_user_id = JNum 1,
      m_role = JStr (if even t then ascii ''assistant'' else ascii ''user''),
      m_content = JNum (of_nat t), m_created_at = t\<rparr>"

definition demo_world_long :: world where
  "demo_world_long =
     demo_world\<lparr>messages_table := map demo_row [9, 1, 8, 2, 7, 3, 6, 4, 5]\<rparr>"

definition demo_turn :: "nat \<Rightarrow> turn" where
  "demo_turn t =
     \<lparr>role = JStr (if even t then ascii ''assistant'' else ascii ''user''),
      content = JNum (of_nat t)\<rparr>"

definition demo_turns_long :: "turn list" where
  "demo_turns_long =
     [\<lparr>role = JStr (ascii ''system''), content = JStr (systemPrompt [])\<rparr>]
     @ map demo_turn [2, 3, 4, 5, 6, 7, 8, 9]
     @ [\<lparr>role = JStr (ascii ''user''), content = JStr (ascii ''I feel tired'')\<rparr>]"

definition demo_chat_no_query :: js where
  "demo_chat_no_query = JObj [(ascii ''query'', JStr []), (ascii ''user_id'', JNum 1)]"

definition demo_chat_blank :: js where
  "demo_chat_blank = JObj [(ascii ''query'', JStr (ascii '' '')), (ascii ''user_id'', JNum 1)]"

definition demo_chat_bad_snippets :: js where
  "demo_chat_bad_snippets =
     JObj [(ascii ''query'', JStr (ascii ''I feel tired'')),
           (ascii ''snippets'', JStr (ascii ''rest well''))]"

definition demo_chat_only_snippets :: js where
  "demo_chat_only_snippets = JObj [(ascii ''snippets'', JStr (ascii ''rest well''))]"

definition demo_chat_empty_snippet :: js where
  "demo_chat_empty_snippet =
     JObj [(ascii ''query'', JStr (ascii ''I feel tired'')),
           (ascii ''snippets'', JArr [JObj [(ascii ''text'', JStr [])]]),
           (ascii ''client'', JStr (ascii ''android''))]"

definition demo_login_new :: js where
  "demo_login_new =
     JObj [(ascii ''phone'', JStr (ascii ''0999'')), (ascii ''password'', JStr (ascii ''secret''))]"

definition demo_login_known :: js where
  "demo_login_known =
     JObj [(ascii ''phone'', JStr (ascii ''0771'')), (ascii ''password'', JStr (ascii ''secret''))]"

definition demo_login_wrong :: js where
  "demo_login_wrong =
     JObj [(ascii ''phone'', JStr (ascii ''0771'')), (ascii ''password'', JStr (ascii ''guess''))]"

definition demo_login_no_password :: js where
  "demo_login_no_password = JObj [(ascii ''phone'', JStr (ascii ''0771''))]"

section \<open>Facts about the helpers and the paths of the chat handler\<close>

text \<open>
  String literals are compared as their ASCII texts. Each helper is described by its
  result in the two outcomes of the store call; the chat handler by its result on each of
  its paths: rejected query, failed grounding, failed history, generation reached, reply
  computed.
\<close>

lemma ascii_Nil [simp]: "ascii [] = []" by (simp add: ascii_def)

lemma of_char_lt: "(of_char c :: nat) < 65536"
proof -
  have "(of_char c :: nat) mod 256 < 256" by simp
  then have "(of_char c :: nat) < 256" by (simp only: of_char_mod_256)
  then show ?thesis by (rule less_trans) simp
qed

lemma of_char_word_inj: "(of_nat (of_char c) :: 16 word) = of_nat (of_char d) \<longleftrightarrow> c = d"
proof
  assume h: "(of_nat (of_char c) :: 16 word) = of_nat (of_char d)"
  from h have "unat (of_nat (of_char c) :: 16 word) = unat (of_nat (of_char d) :: 16 word)" by simp
  then have "(of_char c :: nat) mod 65536 = of_char d mod 65536" by (simp add: unat_of_nat)
  then have "(of_char c :: nat) = of_char d" using of_char_lt[of c] of_char_lt[of d] by simp
  then show "c = d" by simp
qed simp

lemma ascii_eq_iff [simp]: "ascii s = ascii t \<longleftrightarrow> s = t"
proof (induction s arbitrary: t)
  case Nil
  then show ?case by (cases t) (simp_all add: ascii_def)
next
  case (Cons a s)
  then show ?case by (cases t) (simp_all add: ascii_def of_char_word_inj)
qed

lemma ascii_eq_Nil [simp]: "ascii s = [] \<longleftrightarrow> s = []" "[] = ascii s \<longleftrightarrow> s = []"
  by (auto simp: ascii_def)

lemma query_fault:
  "next_fault w = Some d \<Longrightarrow>
   query w s = (Inl (StoreError d), w\<lparr>trace := trace w @ [PoolQuery s], faults := tl (faults w)\<rparr>)"
  by (simp add: query_def)

lemma query_ok:
  "next_fault w = None \<Longrightarrow>
   query w s =
     (Inr (fst (run_sql (w\<lparr>trace := trace w @ [PoolQuery s], faults := tl (faults w)\<rparr>) s)),
      snd (run_sql (w\<lparr>trace := trace w @ [PoolQuery s], faults := tl (faults w)\<rparr>) s))"
  by (simp add: query_def split: prod.splits)

lemma rev_take_newest_first:
  "rev (take n (newest_first ms)) =
     drop (length ms - n) (sort_key m_created_at ms)"
  by (simp add: newest_first_def take_rev)

lemma getRecentMessages_ok:
  "next_fault w = None \<Longrightarrow>
   getRecentMessages w user_id limit =
     (Inr (map message_select
            (rev (take (case limit of None \<Rightarrow> 10 | Some n \<Rightarrow> n)
                    (newest_first (messages_of user_id (messages_table w)))))),
      w\<lparr>trace := trace w @
            [PoolQuery (SELECT_recent_messages user_id (case limit of None \<Rightarrow> 10 | Some n \<Rightarrow> n))],
        faults := tl (faults w)\<rparr>)"
  by (simp add: getRecentMessages_def query_ok rev_map)

lemma getRecentMessages_fault:
  "next_fault w = Some d \<Longrightarrow>
   getRecentMessages w user_id limit =
     (Inl (StoreError d),
      w\<lparr>trace := trace w @
            [PoolQuery (SELECT_recent_messages user_id (case limit of None \<Rightarrow> 10 | Some n \<Rightarrow> n))],
        faults := tl (faults w)\<rparr>)"
  by (simp add: getRecentMessages_def query_fault)

lemma getRecentMessages_returns:
  assumes "getRecentMessages w user_id limit = (Inr rows, w')"
  shows "next_fault w = None"
  using assms
  by (cases "next_fault w") (simp_all add: getRecentMessages_fault)

lemma push_memory_rows:
  "push_memory acc (map message_select ms) = Inr (acc @ map turn_of ms)"
  by (induction ms arbitrary: acc) (simp_all add: message_select_def get_def turn_of_def)

lemma saveMessage_fault:
  "next_fault w = Some d \<Longrightarrow>
   saveMessage w u r c =
     w\<lparr>trace := trace w @ [PoolQuery (INSERT_message u r c),
                             ConsoleError (ascii ''Error saving message:'') (StoreError d)],
       faults := tl (faults w)\<rparr>"
  by (simp add: saveMessage_def query_fault console_error_def)

lemma saveMessage_ok:
  "next_fault w = None \<Longrightarrow>
   saveMessage w u r c =
     w\<lparr>trace := trace w @ [PoolQuery (INSERT_message u r c)],
       faults := tl (faults w),
       messages_table := messages_table w @
          [\<lparr>m_user_id = u, m_role = r, m_content = c, m_created_at = clock w\<rparr>],
       clock := Suc (clock w)\<rparr>"
  by (simp add: saveMessage_def query_ok)

lemma chat_try_generation:
  assumes "truthy (rawQuery_of b)"
    and "grounding_of env (snippets_of b) = Inr g"
    and "truthy (user_id_of b) \<longrightarrow> next_fault w = None"
  shows "kozani_chat_try env w b =
    (let R = chat_request (prompt_turns g (recent_of w (user_id_of b)) (rawQuery_of b));
         w1 = after_history w (user_id_of b);
         w2 = w1\<lparr>trace := trace w1 @ [GroqCreate R]\<rparr>
     in case groq_create env R of
          Inl e \<Rightarrow> (Inl e, w2)
        | Inr completion \<Rightarrow>
            (case first_content completion of
               Inl e \<Rightarrow> (Inl e, w2)
             | Inr c \<Rightarrow>
                 (Inr (chat_response (if nullish c then JStr fallback_answer else c)
                         (snippets_of b) (language_of b) (client_of b)),
                  if truthy (user_id_of b)
                  then saveMessage
                         (saveMessage w2 (user_id_of b) (JStr (ascii ''user'')) (rawQuery_of b))
                         (user_id_of b) (JStr (ascii ''assistant''))
                         (if nullish c then JStr fallback_answer else c)
                  else w2)))"
  using assms
  by (simp add: kozani_chat_try_def Let_def getRecentMessages_ok push_memory_rows
      prompt_turns_def recent_of_def after_history_def
      split: sum.splits)

lemma chat_try_history_fault:
  assumes "truthy (rawQuery_of b)"
    and "grounding_of env (snippets_of b) = Inr g"
    and "truthy (user_id_of b)" and "next_fault w = Some d"
  shows "kozani_chat_try env w b =
     (Inl (StoreError d),
      w\<lparr>trace := trace w @ [PoolQuery (SELECT_recent_messages (user_id_of b) 8)],
        faults := tl (faults w)\<rparr>)"
  using assms by (simp add: kozani_chat_try_def getRecentMessages_fault)

lemma chat_try_grounding_error:
  assumes "truthy (rawQuery_of b)"
    and "grounding_of env (snippets_of b) = Inl e"
  shows "kozani_chat_try env w b = (Inl e, w)"
  using assms by (simp add: kozani_chat_try_def)

lemma new_events_self [simp]: "new_events w w = []"
  by (simp add: new_events_def)

lemma saveMessage_trace:
  "trace (saveMessage w u r c) =
     trace w @ PoolQuery (INSERT_message u r c) #
       (case next_fault w of
          None \<Rightarrow> []
        | Some d \<Rightarrow> [ConsoleError (ascii ''Error saving message:'') (StoreError d)])"
  by (cases "next_fault w") (simp_all add: saveMessage_ok saveMessage_fault)

lemma after_history_trace:
  "trace (after_history w u) =
     trace w @ (if truthy u then [PoolQuery (SELECT_recent_messages u 8)] else [])"
  by (simp add: after_history_def)

lemma chat_generation_events:
  assumes "truthy (rawQuery_of b)"
    and "grounding_of env (snippets_of b) = Inr g"
    and "truthy (user_id_of b) \<longrightarrow> next_fault w = None"
  shows "\<exists>tl_evs. new_events w (snd (kozani_chat env w b)) =
           (if truthy (user_id_of b) then [PoolQuery (SELECT_recent_messages (user_id_of b) 8)] else [])
           @ GroqCreate (chat_request (prompt_turns g (recent_of w (user_id_of b)) (rawQuery_of b)))
           # tl_evs \<and> (\<forall>r. GroqCreate r \<notin> set tl_evs)"
proof -
  let ?R = "chat_request (prompt_turns g (recent_of w (user_id_of b)) (rawQuery_of b))"
  let ?pre = "(if truthy (user_id_of b) then [PoolQuery (SELECT_recent_messages (user_id_of b) 8)] else [])"
  have "\<exists>tl_evs. trace (snd (kozani_chat env w b)) = trace w @ ?pre @ GroqCreate ?R # tl_evs
          \<and> (\<forall>r. GroqCreate r \<notin> set tl_evs)"
    unfolding kozani_chat_def chat_try_generation [OF assms] Let_def
    by (auto simp: console_error_def after_history_trace saveMessage_trace
             split: sum.splits option.splits)
  then show ?thesis
    by (auto simp: new_events_def)
qed

lemma chat_no_generation_events:
  assumes "\<not> truthy (rawQuery_of b) \<or> (\<exists>e. grounding_of env (snippets_of b) = Inl e)
           \<or> (truthy (user_id_of b) \<and> next_fault w \<noteq> None)"
  shows "GroqCreate r \<notin> set (new_events w (snd (kozani_chat env w b)))"
proof (cases "truthy (rawQuery_of b)")
  case False
  then show ?thesis by (simp add: kozani_chat_def kozani_chat_try_def)
next
  case q: True
  show ?thesis
  proof (cases "grounding_of env (snippets_of b)")
    case (Inl e)
    then show ?thesis using q
      by (simp add: kozani_chat_def chat_try_grounding_error console_error_def new_events_def)
  next
    case (Inr g)
    with assms q obtain d where "truthy (user_id_of b)" "next_fault w = Some d" by auto
    then show ?thesis using q Inr
      by (simp add: kozani_chat_def chat_try_history_fault console_error_def new_events_def)
  qed
qed

lemma recent_of_props:
  assumes "truthy u"
  shows "recent_of w u =
           drop (length (messages_of u (messages_table w)) - 8)
                (sort_key m_created_at (messages_of u (messages_table w)))"
    and "sorted (map m_created_at (recent_of w u))"
    and "length (recent_of w u) \<le> 8"
    and "\<forall>m \<in> set (recent_of w u). m \<in> set (messages_table w) \<and> m_user_id m = u"
proof -
  show eq: "recent_of w u =
           drop (length (messages_of u (messages_table w)) - 8)
                (sort_key m_created_at (messages_of u (messages_table w)))"
    using assms by (simp add: recent_of_def rev_take_newest_first)
  have "sorted (map m_created_at (sort_key m_created_at (messages_of u (messages_table w))))"
    by simp
  then show "sorted (map m_created_at (recent_of w u))"
    unfolding eq by (simp add: drop_map [symmetric] del: sorted_sort_key)
  show "length (recent_of w u) \<le> 8" unfolding eq by simp
  show "\<forall>m \<in> set (recent_of w u). m \<in> set (messages_table w) \<and> m_user_id m = u"
    unfolding eq by (auto dest!: in_set_dropD simp: messages_of_def)
qed

lemma next_fault_drop:
  "faults w' = drop k (faults w) \<Longrightarrow> next_fault w' = fault_at w k"
  by (auto simp: next_fault_def fault_at_def hd_drop_conv_nth drop_Suc
           split: list.splits dest: arg_cong [where f = hd] arg_cong [where f = length])

lemma next_fault_0: "next_fault w = fault_at w 0"
  by (rule next_fault_drop) simp

lemma generation_call:
  assumes "GroqCreate r \<in> set (new_events w (snd (kozani_chat env w b)))"
  shows "truthy (rawQuery_of b)"
    and "truthy (user_id_of b) \<longrightarrow> next_fault w = None"
    and "\<exists>g. grounding_of env (snippets_of b) = Inr g \<and>
             r = chat_request (prompt_turns g (recent_of w (user_id_of b)) (rawQuery_of b))"
proof -
  have neg: "\<not> (\<not> truthy (rawQuery_of b) \<or> (\<exists>e. grounding_of env (snippets_of b) = Inl e)
           \<or> (truthy (user_id_of b) \<and> next_fault w \<noteq> None))"
    using assms chat_no_generation_events [of b env w r] by blast
  from neg show q: "truthy (rawQuery_of b)" by blast
  from neg have ng: "\<not> (\<exists>e. grounding_of env (snippets_of b) = Inl e)" by blast
  from neg show nf: "truthy (user_id_of b) \<longrightarrow> next_fault w = None" by blast
  from ng obtain g where g: "grounding_of env (snippets_of b) = Inr g"
    by (cases "grounding_of env (snippets_of b)") auto
  from chat_generation_events [OF q g nf]
  obtain tl_evs where ev: "new_events w (snd (kozani_chat env w b)) =
           (if truthy (user_id_of b) then [PoolQuery (SELECT_recent_messages (user_id_of b) 8)] else [])
           @ GroqCreate (chat_request (prompt_turns g (recent_of w (user_id_of b)) (rawQuery_of b)))
           # tl_evs" and none: "\<forall>r. GroqCreate r \<notin> set tl_evs"
    by auto
  from assms none
  have "r = chat_request (prompt_turns g (recent_of w (user_id_of b)) (rawQuery_of b))"
    unfolding ev by (auto split: if_splits)
  with g show "\<exists>g. grounding_of env (snippets_of b) = Inr g \<and>
             r = chat_request (prompt_turns g (recent_of w (user_id_of b)) (rawQuery_of b))"
    by blast
qed

lemma saveMessage_effect:
  "saveMessage w u r c =
     (case next_fault w of
        None \<Rightarrow>
          w\<lparr>trace := trace w @ [PoolQuery (INSERT_message u r c)],
            faults := tl (faults w),
            messages_table := messages_table w @
               [\<lparr>m_user_id = u, m_role = r, m_content = c, m_created_at = clock w\<rparr>],
            clock := Suc (clock w)\<rparr>
      | Some d \<Rightarrow>
          w\<lparr>trace := trace w @ [PoolQuery (INSERT_message u r c),
                  ConsoleError (ascii ''Error saving message:'') (StoreError d)],
            faults := tl (faults w)\<rparr>)"
  by (cases "next_fault w") (simp_all add: saveMessage_ok saveMessage_fault)

lemma chat_reply_computed:
  assumes "GroqCreate r \<in> set (new_events w (snd (kozani_chat env w b)))"
    and "groq_create env r = Inr completion"
    and "first_content completion = Inr c"
  shows "kozani_chat env w b =
     (chat_response (if nullish c then JStr fallback_answer else c)
         (snippets_of b) (language_of b) (client_of b),
      let w1 = after_history w (user_id_of b);
          w2 = w1\<lparr>trace := trace w1 @ [GroqCreate r]\<rparr>
      in if truthy (user_id_of b)
         then saveMessage
                (saveMessage w2 (user_id_of b) (JStr (ascii ''user'')) (rawQuery_of b))
                (user_id_of b) (JStr (ascii ''assistant''))
                (if nullish c then JStr fallback_answer else c)
         else w2)"
proof -
  from generation_call [OF assms(1)]
  obtain g where q: "truthy (rawQuery_of b)"
    and nf: "truthy (user_id_of b) \<longrightarrow> next_fault w = None"
    and g: "grounding_of env (snippets_of b) = Inr g"
    and r: "r = chat_request (prompt_turns g (recent_of w (user_id_of b)) (rawQuery_of b))"
    by blast
  show ?thesis
    using assms(2,3) unfolding r kozani_chat_def chat_try_generation [OF q g nf]
    by (simp add: Let_def)
qed

lemma saveMessage_fields:
  "trace (saveMessage w u r c) = trace w @ PoolQuery (INSERT_message u r c) # save_log (next_fault w)"
  "faults (saveMessage w u r c) = tl (faults w)"
  "messages_table (saveMessage w u r c) =
     messages_table w @
       (if next_fault w = None
        then [\<lparr>m_user_id = u, m_role = r, m_content = c, m_created_at = clock w\<rparr>] else [])"
  "users_table (saveMessage w u r c) = users_table w"
  "clock (saveMessage w u r c) = (if next_fault w = None then Suc (clock w) else clock w)"
  by (cases "next_fault w"; simp add: saveMessage_effect save_log_def)+

lemma chat_reply_world:
  assumes "truthy (user_id_of b)"
    and "GroqCreate r \<in> set (new_events w (snd (kozani_chat env w b)))"
    and "groq_create env r = Inr completion"
    and "first_content completion = Inr c"
    and "a = (if nullish c then JStr fallback_answer else c)"
  shows "new_events w (snd (kozani_chat env w b)) =
              [PoolQuery (SELECT_recent_messages (user_id_of b) 8),
               GroqCreate r,
               PoolQuery (INSERT_message (user_id_of b) (JStr (ascii ''user'')) (rawQuery_of b))]
              @ save_log (fault_at w 1)
              @ [PoolQuery (INSERT_message (user_id_of b) (JStr (ascii ''assistant'')) a)]
              @ save_log (fault_at w 2)"
    and "messages_table (snd (kozani_chat env w b)) =
           messages_table w
           @ (if fault_at w 1 = None
              then [\<lparr>m_user_id = user_id_of b, m_role = JStr (ascii ''user''),
                      m_content = rawQuery_of b, m_created_at = clock w\<rparr>] else [])
           @ (if fault_at w 2 = None
              then [\<lparr>m_user_id = user_id_of b, m_role = JStr (ascii ''assistant''),
                      m_content = a,
                      m_created_at = (if fault_at w 1 = None then Suc (clock w) else clock w)\<rparr>]
              else [])"
proof -
  define w2 where "w2 = (after_history w (user_id_of b))
                          \<lparr>trace := trace (after_history w (user_id_of b)) @ [GroqCreate r]\<rparr>"
  define w3 where "w3 = saveMessage w2 (user_id_of b) (JStr (ascii ''user'')) (rawQuery_of b)"
  have w2: "trace w2 = trace w @ [PoolQuery (SELECT_recent_messages (user_id_of b) 8), GroqCreate r]"
           "faults w2 = drop 1 (faults w)" "messages_table w2 = messages_table w"
           "clock w2 = clock w"
    using assms(1) by (simp_all add: w2_def after_history_def drop_Suc)
  have f1: "next_fault w2 = fault_at w 1"
    using w2(2) by (rule next_fault_drop)
  have "faults w3 = drop 2 (faults w)"
    by (simp add: w3_def saveMessage_fields w2 drop_Suc numeral_2_eq_2)
  then have f2: "next_fault w3 = fault_at w 2"
    by (rule next_fault_drop)
  have res: "snd (kozani_chat env w b) =
               saveMessage w3 (user_id_of b) (JStr (ascii ''assistant'')) a"
    unfolding chat_reply_computed [OF assms(2,3,4)]
    using assms(1) by (simp add: Let_def w2_def w3_def assms(5))
  show "new_events w (snd (kozani_chat env w b)) =
              [PoolQuery (SELECT_recent_messages (user_id_of b) 8),
               GroqCreate r,
               PoolQuery (INSERT_message (user_id_of b) (JStr (ascii ''user'')) (rawQuery_of b))]
              @ save_log (fault_at w 1)
              @ [PoolQuery (INSERT_message (user_id_of b) (JStr (ascii ''assistant'')) a)]
              @ save_log (fault_at w 2)"
    unfolding res
    by (simp add: saveMessage_fields w3_def w2 f1 f2 [unfolded w3_def] new_events_def)
  show "messages_table (snd (kozani_chat env w b)) =
           messages_table w
           @ (if fault_at w 1 = None
              then [\<lparr>m_user_id = user_id_of b, m_role = JStr (ascii ''user''),
                      m_content = rawQuery_of b, m_created_at = clock w\<rparr>] else [])
           @ (if fault_at w 2 = None
              then [\<lparr>m_user_id = user_id_of b, m_role = JStr (ascii ''assistant''),
                      m_content = a,
                      m_created_at = (if fault_at w 1 = None then Suc (clock w) else clock w)\<rparr>]
              else [])"
    unfolding res
    by (simp add: saveMessage_fields w3_def w2 f1 f2 [unfolded w3_def])
qed

lemma grounding_array:
  "grounding_of env s = Inr g \<Longrightarrow> \<exists>xs. s = JArr xs"
  by (cases s) (simp_all add: grounding_of_def)

lemma grounding_not_array:
  "\<forall>xs. s \<noteq> JArr xs \<Longrightarrow> \<exists>d. grounding_of env s = Inl (TypeError d)"
  by (cases s) (simp_all add: grounding_of_def)

lemma status_fixed [simp]:
  "status empty_query_response = 400"
  "status backend_error_response = 500"
  "status (chat_response a s l c) = 200"
  by (simp_all add: empty_query_response_def backend_error_response_def chat_response_def)

lemma chat_generation_error:
  assumes "GroqCreate r \<in> set (new_events w (snd (kozani_chat env w b)))"
    and "groq_create env r = Inl e
         \<or> (\<exists>completion. groq_create env r = Inr completion \<and> first_content completion = Inl e)"
  shows "kozani_chat env w b =
     (backend_error_response,
      console_error ((after_history w (user_id_of b))
                       \<lparr>trace := trace (after_history w (user_id_of b)) @ [GroqCreate r]\<rparr>)
        (ascii ''Kozani /api/kozani-chat error:'') e)"
proof -
  from generation_call [OF assms(1)]
  obtain g where q: "truthy (rawQuery_of b)"
    and nf: "truthy (user_id_of b) \<longrightarrow> next_fault w = None"
    and g: "grounding_of env (snippets_of b) = Inr g"
    and r: "r = chat_request (prompt_turns g (recent_of w (user_id_of b)) (rawQuery_of b))"
    by blast
  show ?thesis
    using assms(2) unfolding r kozani_chat_def chat_try_generation [OF q g nf]
    by (auto simp: Let_def)
qed

lemma chat_outcomes:
  "fst (kozani_chat env w b) = empty_query_response \<and> \<not> truthy (rawQuery_of b)
   \<or> fst (kozani_chat env w b) = backend_error_response \<and> truthy (rawQuery_of b)
   \<or> truthy (rawQuery_of b) \<and>
      (\<exists>g r completion c. grounding_of env (snippets_of b) = Inr g
         \<and> GroqCreate r \<in> set (new_events w (snd (kozani_chat env w b)))
         \<and> groq_create env r = Inr completion \<and> first_content completion = Inr c
         \<and> fst (kozani_chat env w b) =
             chat_response (if nullish c then JStr fallback_answer else c)
               (snippets_of b) (language_of b) (client_of b))"
proof (cases "truthy (rawQuery_of b)")
  case False
  then show ?thesis by (simp add: kozani_chat_def kozani_chat_try_def)
next
  case q: True
  show ?thesis
  proof (cases "grounding_of env (snippets_of b)")
    case (Inl e)
    then show ?thesis using q
      by (simp add: kozani_chat_def chat_try_grounding_error)
  next
    case g: (Inr g)
    show ?thesis
    proof (cases "truthy (user_id_of b) \<longrightarrow> next_fault w = None")
      case False
      then obtain d where "truthy (user_id_of b)" "next_fault w = Some d" by auto
      then show ?thesis using q g
        by (simp add: kozani_chat_def chat_try_history_fault)
    next
      case nf: True
      let ?R = "chat_request (prompt_turns g (recent_of w (user_id_of b)) (rawQuery_of b))"
      from chat_generation_events [OF q g nf]
      have ev: "GroqCreate ?R \<in> set (new_events w (snd (kozani_chat env w b)))"
        by auto
      show ?thesis
      proof (cases "groq_create env ?R")
        case (Inl e)
        with chat_generation_error [OF ev, of e] q show ?thesis by simp
      next
        case c: (Inr completion)
        show ?thesis
        proof (cases "first_content completion")
          case (Inl e)
          with chat_generation_error [OF ev, of e] c q show ?thesis by simp
        next
          case (Inr c')
          from chat_reply_computed [OF ev c Inr]
          have "fst (kozani_chat env w b) =
             chat_response (if nullish c' then JStr fallback_answer else c')
               (snippets_of b) (language_of b) (client_of b)"
            by simp
          with q g ev c Inr show ?thesis by blast
        qed
      qed
    qed
  qed
qed

lemma chat_events_shape:
  "new_events w (snd (kozani_chat env w b)) = []
   \<or> (\<exists>e. new_events w (snd (kozani_chat env w b)) =
             [ConsoleError (ascii ''Kozani /api/kozani-chat error:'') e])
   \<or> (\<exists>d. new_events w (snd (kozani_chat env w b)) =
             [PoolQuery (SELECT_recent_messages (user_id_of b) 8),
              ConsoleError (ascii ''Kozani /api/kozani-chat error:'') (StoreError d)])
   \<or> (\<exists>r e. new_events w (snd (kozani_chat env w b)) =
             (if truthy (user_id_of b)
              then [PoolQuery (SELECT_recent_messages (user_id_of b) 8)] else [])
             @ [GroqCreate r, ConsoleError (ascii ''Kozani /api/kozani-chat error:'') e])
   \<or> (\<exists>r. \<not> truthy (user_id_of b) \<and> new_events w (snd (kozani_chat env w b)) = [GroqCreate r])
   \<or> (\<exists>r a. truthy (user_id_of b) \<and> new_events w (snd (kozani_chat env w b)) =
              [PoolQuery (SELECT_recent_messages (user_id_of b) 8),
               GroqCreate r,
               PoolQuery (INSERT_message (user_id_of b) (JStr (ascii ''user'')) (rawQuery_of b))]
              @ save_log (fault_at w 1)
              @ [PoolQuery (INSERT_message (user_id_of b) (JStr (ascii ''assistant'')) a)]
              @ save_log (fault_at w 2))"
proof (cases "truthy (rawQuery_of b)")
  case False
  then show ?thesis by (simp add: kozani_chat_def kozani_chat_try_def)
next
  case q: True
  show ?thesis
  proof (cases "grounding_of env (snippets_of b)")
    case (Inl e)
    then have "new_events w (snd (kozani_chat env w b)) =
             [ConsoleError (ascii ''Kozani /api/kozani-chat error:'') e]"
      using q by (simp add: kozani_chat_def chat_try_grounding_error console_error_def
          new_events_def)
    then show ?thesis by blast
  next
    case g: (Inr g)
    show ?thesis
    proof (cases "truthy (user_id_of b) \<longrightarrow> next_fault w = None")
      case False
      then obtain d where "truthy (user_id_of b)" "next_fault w = Some d" by auto
      then have "new_events w (snd (kozani_chat env w b)) =
             [PoolQuery (SELECT_recent_messages (user_id_of b) 8),
              ConsoleError (ascii ''Kozani /api/kozani-chat error:'') (StoreError d)]"
        using q g by (simp add: kozani_chat_def chat_try_history_fault console_error_def
            new_events_def)
      then show ?thesis by blast
    next
      case nf: True
      let ?R = "chat_request (prompt_turns g (recent_of w (user_id_of b)) (rawQuery_of b))"
      from chat_generation_events [OF q g nf]
      have ev: "GroqCreate ?R \<in> set (new_events w (snd (kozani_chat env w b)))"
        by auto
      have err: "\<exists>r e. new_events w (snd (kozani_chat env w b)) =
             (if truthy (user_id_of b)
              then [PoolQuery (SELECT_recent_messages (user_id_of b) 8)] else [])
             @ [GroqCreate r, ConsoleError (ascii ''Kozani /api/kozani-chat error:'') e]"
        if "groq_create env ?R = Inl e
         \<or> (\<exists>completion. groq_create env ?R = Inr completion \<and> first_content completion = Inl e)"
        for e
        unfolding chat_generation_error [OF ev that]
        by (simp add: console_error_def new_events_def after_history_trace)
      show ?thesis
      proof (cases "groq_create env ?R")
        case (Inl e)
        with err [of e] show ?thesis by blast
      next
        case c: (Inr completion)
        show ?thesis
        proof (cases "first_content completion")
          case (Inl e)
          with err [of e] c show ?thesis by blast
        next
          case c': (Inr c')
          show ?thesis
          proof (cases "truthy (user_id_of b)")
            case True
            from chat_reply_world(1) [OF True ev c c' refl] True
            show ?thesis by blast
          next
            case False
            then have "new_events w (snd (kozani_chat env w b)) = [GroqCreate ?R]"
              unfolding chat_reply_computed [OF ev c c']
              by (simp add: Let_def after_history_def new_events_def)
            with False show ?thesis by blast
          qed
        qed
      qed
    qed
  qed
qed

lemma chat_user_insert:
  assumes "PoolQuery (INSERT_message u (JStr (ascii ''user'')) c)
             \<in> set (new_events w (snd (kozani_chat env w b)))"
  shows "c = rawQuery_of b \<and> u = user_id_of b"
  using chat_events_shape [of w env b] assms
  by (auto simp: save_log_def split: if_splits option.splits)

lemma empty_query_response_iff:
  "fst (kozani_chat env w b) = empty_query_response \<longleftrightarrow> \<not> truthy (rawQuery_of b)"
proof
  assume "fst (kozani_chat env w b) = empty_query_response"
  then have st: "status (fst (kozani_chat env w b)) = 400" by simp
  show "\<not> truthy (rawQuery_of b)"
  proof
    assume "truthy (rawQuery_of b)"
    with chat_outcomes [of env w b]
    have "status (fst (kozani_chat env w b)) = 500 \<or> status (fst (kozani_chat env w b)) = 200"
      by auto
    with st show False by simp
  qed
next
  assume "\<not> truthy (rawQuery_of b)"
  then show "fst (kozani_chat env w b) = empty_query_response"
    by (simp add: kozani_chat_def kozani_chat_try_def)
qed

lemma findUserByPhone_ok:
  assumes "next_fault w = None" and "\<not> nullish phone"
  shows "findUserByPhone w phone =
     (Inr (case filter (\<lambda>u. u_phone u = phone) (users_table w) of
             [] \<Rightarrow> JNull | u # us \<Rightarrow> user_select u),
      w\<lparr>trace := trace w @ [PoolQuery (SELECT_user_by_phone phone)], faults := tl (faults w)\<rparr>)"
  using assms
  by (simp add: findUserByPhone_def query_ok first_row_def user_select_def split: list.splits)

lemma findUserByPhone_fault:
  assumes "next_fault w = Some d"
  shows "findUserByPhone w phone =
     (Inl (StoreError d),
      w\<lparr>trace := trace w @ [PoolQuery (SELECT_user_by_phone phone)], faults := tl (faults w)\<rparr>)"
  using assms by (simp add: findUserByPhone_def query_fault)

lemma truthy_not_nullish: "truthy v \<Longrightarrow> \<not> nullish v"
  by (cases v) simp_all

lemma login_without_body:
  "nullish b \<Longrightarrow>
   login env w b =
     (error_response 500 ''Server error during login.'',
      console_error w (ascii ''Login error:'')
        (TypeError (ascii ''Cannot destructure property of undefined or null'')))"
  by (simp add: login_def login_try_def)

lemmas request_simps =
  body_or_empty_def rawQuery_of_def snippets_of_def language_of_def client_of_def
  user_id_of_def default_to_def

lemmas demo_simps =
  demo_env_def demo_env_groq_down_def demo_env_null_reply_def demo_env_empty_reply_def
  demo_world_def demo_world_saves_fail_def demo_world_store_down_def
  demo_chat_def demo_turns_def demo_chat_no_query_def demo_chat_blank_def
  demo_chat_bad_snippets_def demo_chat_only_snippets_def demo_chat_empty_snippet_def
  demo_login_new_def demo_login_known_def demo_login_wrong_def demo_login_no_password_def
  completion_with_def

lemmas chat_eval =
  kozani_chat_def kozani_chat_try_def request_simps grounding_of_def getRecentMessages_def
  query_def next_fault_def newest_first_def messages_of_def message_select_def get_def
  chat_request_def first_content_def saveMessage_def console_error_def new_events_def
  Let_def

lemmas login_eval =
  login_def login_try_def findUserByPhone_def createUser_def query_def next_fault_def
  first_row_def user_select_def user_returning_def login_response_def console_error_def
  Let_def

section \<open>The claims\<close>

subsection \<open>C1: the turn sequence handed to the generation service\<close>

text \<open>
  Claim C1. For a chat request that carries a user id, every call of the generation
  service made by the handler receives exactly: the system instruction (the prompt with
  the grounding block), then the stored messages of that user, oldest first, the 8 most
  recent at most, each with the role and content it was stored with, then the new
  utterance with role \<open>user\<close>. The history is the tail of the user's messages in order of
  creation, and it is what the store returned newest first, reversed. The call is made
  whenever the query passes the validation, the grounding is assembled and the history
  is read.
\<close>

theorem chat_turn_sequence:
  assumes "truthy (user_id_of b)"
  shows "let history = sort_key m_created_at (messages_of (user_id_of b) (messages_table w));
             recent = drop (length history - 8) history;
             turns = (\<lambda>g. [\<lparr>role = JStr (ascii ''system''), content = JStr (systemPrompt g)\<rparr>]
                         @ map (\<lambda>m. \<lparr>role = m_role m, content = m_content m\<rparr>) recent
                         @ [\<lparr>role = JStr (ascii ''user''), content = rawQuery_of b\<rparr>]);
             calls = new_events w (snd (kozani_chat env w b))
         in recent = rev (take 8 (newest_first (messages_of (user_id_of b) (messages_table w))))
          \<and> sorted (map m_created_at recent)
          \<and> length recent \<le> 8
          \<and> (\<forall>m \<in> set recent. m \<in> set (messages_table w) \<and> m_user_id m = user_id_of b)
          \<and> (\<forall>r. GroqCreate r \<in> set calls \<longrightarrow>
                (\<exists>g. grounding_of env (snippets_of b) = Inr g \<and> messages r = turns g))
          \<and> (\<forall>g. truthy (rawQuery_of b) \<and> grounding_of env (snippets_of b) = Inr g
                  \<and> next_fault w = None \<longrightarrow>
                (\<exists>r. GroqCreate r \<in> set calls \<and> messages r = turns g))"
proof -
  have tf: "turn_of = (\<lambda>m. \<lparr>role = m_role m, content = m_content m\<rparr>)"
    by (rule ext) (simp add: turn_of_def)
  note rp = recent_of_props [OF assms, of w]
  have sent: "\<exists>g. grounding_of env (snippets_of b) = Inr g \<and>
                messages r = prompt_turns g (recent_of w (user_id_of b)) (rawQuery_of b)"
    if r: "GroqCreate r \<in> set (new_events w (snd (kozani_chat env w b)))" for r
  proof -
    have neg: "\<not> (\<not> truthy (rawQuery_of b) \<or> (\<exists>e. grounding_of env (snippets_of b) = Inl e)
           \<or> (truthy (user_id_of b) \<and> next_fault w \<noteq> None))"
      using r chat_no_generation_events [of b env w r] by blast
    from neg have q: "truthy (rawQuery_of b)" by blast
    from neg have ng: "\<not> (\<exists>e. grounding_of env (snippets_of b) = Inl e)" by blast
    from neg have nf: "truthy (user_id_of b) \<longrightarrow> next_fault w = None" by blast
    from ng obtain g where g: "grounding_of env (snippets_of b) = Inr g"
      by (cases "grounding_of env (snippets_of b)") auto
    from chat_generation_events [OF q g nf]
    obtain tl_evs where ev: "new_events w (snd (kozani_chat env w b)) =
           [PoolQuery (SELECT_recent_messages (user_id_of b) 8)]
           @ GroqCreate (chat_request (prompt_turns g (recent_of w (user_id_of b)) (rawQuery_of b)))
           # tl_evs" and none: "\<forall>r. GroqCreate r \<notin> set tl_evs"
      using assms by auto
    from r none
    have "r = chat_request (prompt_turns g (recent_of w (user_id_of b)) (rawQuery_of b))"
      unfolding ev by auto
    with g show ?thesis by (auto simp: chat_request_def)
  qed
  have made: "\<exists>r. GroqCreate r \<in> set (new_events w (snd (kozani_chat env w b))) \<and>
                messages r = prompt_turns g (recent_of w (user_id_of b)) (rawQuery_of b)"
    if "truthy (rawQuery_of b) \<and> grounding_of env (snippets_of b) = Inr g \<and> next_fault w = None"
    for g
  proof -
    from that have q: "truthy (rawQuery_of b)" and g: "grounding_of env (snippets_of b) = Inr g"
      and nf: "truthy (user_id_of b) \<longrightarrow> next_fault w = None" by simp_all
    from chat_generation_events [OF q g nf]
    have "GroqCreate (chat_request (prompt_turns g (recent_of w (user_id_of b)) (rawQuery_of b)))
            \<in> set (new_events w (snd (kozani_chat env w b)))"
      by auto
    moreover have "messages (chat_request (prompt_turns g (recent_of w (user_id_of b)) (rawQuery_of b)))
        = prompt_turns g (recent_of w (user_id_of b)) (rawQuery_of b)"
      by (simp add: chat_request_def)
    ultimately show ?thesis by blast
  qed
  have pt: "prompt_turns g (recent_of w (user_id_of b)) (rawQuery_of b) =
      [\<lparr>role = JStr (ascii ''system''), content = JStr (systemPrompt g)\<rparr>]
      @ map (\<lambda>m. \<lparr>role = m_role m, content = m_content m\<rparr>)
          (drop (length (sort_key m_created_at (messages_of (user_id_of b) (messages_table w))) - 8)
             (sort_key m_created_at (messages_of (user_id_of b) (messages_table w))))
      @ [\<lparr>role = JStr (ascii ''user''), content = rawQuery_of b\<rparr>]" for g
    by (simp add: prompt_turns_def tf rp(1))
  show ?thesis
    unfolding Let_def
  proof (intro conjI allI impI)
    show "drop (length (sort_key m_created_at (messages_of (user_id_of b) (messages_table w))) - 8)
            (sort_key m_created_at (messages_of (user_id_of b) (messages_table w))) =
          rev (take 8 (newest_first (messages_of (user_id_of b) (messages_table w))))"
      using rp(1) assms by (simp add: recent_of_def)
    show "sorted (map m_created_at
            (drop (length (sort_key m_created_at (messages_of (user_id_of b) (messages_table w))) - 8)
            (sort_key m_created_at (messages_of (user_id_of b) (messages_table w)))))"
      using rp(2) by (simp add: rp(1))
    show "length (drop (length (sort_key m_created_at (messages_of (user_id_of b) (messages_table w))) - 8)
            (sort_key m_created_at (messages_of (user_id_of b) (messages_table w)))) \<le> 8"
      by simp
    show "\<forall>m \<in> set (drop (length (sort_key m_created_at (messages_of (user_id_of b) (messages_table w))) - 8)
            (sort_key m_created_at (messages_of (user_id_of b) (messages_table w)))).
            m \<in> set (messages_table w) \<and> m_user_id m = user_id_of b"
      using rp(4) by (simp add: rp(1))
  next
    fix r assume "GroqCreate r \<in> set (new_events w (snd (kozani_chat env w b)))"
    from sent [OF this] show "\<exists>g. grounding_of env (snippets_of b) = Inr g \<and>
        messages r =
          [\<lparr>role = JStr (ascii ''system''), content = JStr (systemPrompt g)\<rparr>]
          @ map (\<lambda>m. \<lparr>role = m_role m, content = m_content m\<rparr>)
              (drop (length (sort_key m_created_at (messages_of (user_id_of b) (messages_table w))) - 8)
                 (sort_key m_created_at (messages_of (user_id_of b) (messages_table w))))
          @ [\<lparr>role = JStr (ascii ''user''), content = rawQuery_of b\<rparr>]"
      unfolding pt .
  next
    fix g
    assume "truthy (rawQuery_of b) \<and> grounding_of env (snippets_of b) = Inr g
                  \<and> next_fault w = None"
    from made [OF this] show "\<exists>r. GroqCreate r \<in> set (new_events w (snd (kozani_chat env w b))) \<and>
        messages r =
          [\<lparr>role = JStr (ascii ''system''), content = JStr (systemPrompt g)\<rparr>]
          @ map (\<lambda>m. \<lparr>role = m_role m, content = m_content m\<rparr>)
              (drop (length (sort_key m_created_at (messages_of (user_id_of b) (messages_table w))) - 8)
                 (sort_key m_created_at (messages_of (user_id_of b) (messages_table w))))
          @ [\<lparr>role = JStr (ascii ''user''), content = rawQuery_of b\<rparr>]"
      unfolding pt .
  qed
qed

text \<open>
  The statement at two worlds: with two stored messages the generation service gets both,
  the older first; with nine it gets the eight most recent, and the oldest is left out.
\<close>

theorem chat_turn_sequence_witness:
  "truthy (user_id_of demo_chat)
   \<and> GroqCreate (chat_request demo_turns)
       \<in> set (new_events demo_world (snd (kozani_chat demo_env demo_world demo_chat)))
   \<and> (\<exists>g. grounding_of demo_env (snippets_of demo_chat) = Inr g
        \<and> messages (chat_request demo_turns) =
            [\<lparr>role = JStr (ascii ''system''), content = JStr (systemPrompt g)\<rparr>,
             \<lparr>role = JStr (ascii ''user''), content = JStr (ascii ''Hi'')\<rparr>,
             \<lparr>role = JStr (ascii ''assistant''),
               content = JStr (ascii ''Hello, how are you feeling?'')\<rparr>,
             \<lparr>role = JStr (ascii ''user''), content = JStr (ascii ''I feel tired'')\<rparr>])
   \<and> GroqCreate (chat_request demo_turns_long)
       \<in> set (new_events demo_world_long (snd (kozani_chat demo_env demo_world_long demo_chat)))
   \<and> (\<exists>g. grounding_of demo_env (snippets_of demo_chat) = Inr g
        \<and> messages (chat_request demo_turns_long) =
            [\<lparr>role = JStr (ascii ''system''), content = JStr (systemPrompt g)\<rparr>]
            @ map demo_turn [2, 3, 4, 5, 6, 7, 8, 9]
            @ [\<lparr>role = JStr (ascii ''user''), content = JStr (ascii ''I feel tired'')\<rparr>])"
proof -
  have h1: "truthy (user_id_of demo_chat)"
    by (simp add: request_simps demo_simps)
  have h2: "GroqCreate (chat_request demo_turns)
       \<in> set (new_events demo_world (snd (kozani_chat demo_env demo_world demo_chat)))"
    by (simp add: chat_eval demo_simps)
  have h3: "GroqCreate (chat_request demo_turns_long)
       \<in> set (new_events demo_world_long (snd (kozani_chat demo_env demo_world_long demo_chat)))"
    by (simp add: chat_eval demo_simps demo_world_long_def demo_row_def demo_turns_long_def
        demo_turn_def)
  from chat_turn_sequence [OF h1, where w = demo_world and env = demo_env, unfolded Let_def] h2
  have "\<exists>g. grounding_of demo_env (snippets_of demo_chat) = Inr g \<and>
        messages (chat_request demo_turns) =
          [\<lparr>role = JStr (ascii ''system''), content = JStr (systemPrompt g)\<rparr>]
          @ map (\<lambda>m. \<lparr>role = m_role m, content = m_content m\<rparr>)
              (drop (length (sort_key m_created_at
                       (messages_of (user_id_of demo_chat) (messages_table demo_world))) - 8)
                 (sort_key m_created_at
                    (messages_of (user_id_of demo_chat) (messages_table demo_world))))
          @ [\<lparr>role = JStr (ascii ''user''), content = rawQuery_of demo_chat\<rparr>]"
    by blast
  then have a: "\<exists>g. grounding_of demo_env (snippets_of demo_chat) = Inr g
        \<and> messages (chat_request demo_turns) =
            [\<lparr>role = JStr (ascii ''system''), content = JStr (systemPrompt g)\<rparr>,
             \<lparr>role = JStr (ascii ''user''), content = JStr (ascii ''Hi'')\<rparr>,
             \<lparr>role = JStr (ascii ''assistant''),
               content = JStr (ascii ''Hello, how are you feeling?'')\<rparr>,
             \<lparr>role = JStr (ascii ''user''), content = JStr (ascii ''I feel tired'')\<rparr>]"
    by (simp add: request_simps demo_chat_def demo_world_def messages_of_def)
  from chat_turn_sequence [OF h1, where w = demo_world_long and env = demo_env, unfolded Let_def] h3
  have "\<exists>g. grounding_of demo_env (snippets_of demo_chat) = Inr g \<and>
        messages (chat_request demo_turns_long) =
          [\<lparr>role = JStr (ascii ''system''), content = JStr (systemPrompt g)\<rparr>]
          @ map (\<lambda>m. \<lparr>role = m_role m, content = m_content m\<rparr>)
              (drop (length (sort_key m_created_at
                       (messages_of (user_id_of demo_chat) (messages_table demo_world_long))) - 8)
                 (sort_key m_created_at
                    (messages_of (user_id_of demo_chat) (messages_table demo_world_long))))
          @ [\<lparr>role = JStr (ascii ''user''), content = rawQuery_of demo_chat\<rparr>]"
    by blast
  then have b: "\<exists>g. grounding_of demo_env (snippets_of demo_chat) = Inr g
        \<and> messages (chat_request demo_turns_long) =
            [\<lparr>role = JStr (ascii ''system''), content = JStr (systemPrompt g)\<rparr>]
            @ map demo_turn [2, 3, 4, 5, 6, 7, 8, 9]
            @ [\<lparr>role = JStr (ascii ''user''), content = JStr (ascii ''I feel tired'')\<rparr>]"
    by (simp add: request_simps demo_chat_def demo_world_def demo_world_long_def
        demo_row_def demo_turn_def messages_of_def)
  from h1 h2 h3 a b show ?thesis by blast
qed

subsection \<open>C2: an empty query is answered before any call\<close>

text \<open>
  Claim C2. When the query of a chat request is empty or missing (falsy), the response is
  the fixed apology with status 400, \<open>safety.ok = false\<close> and the single flag
  \<open>empty_query\<close>, and the world is unchanged: no store call and no generation call was
  made, nothing was logged.
\<close>

theorem empty_query_short_circuit:
  assumes "\<not> truthy (rawQuery_of req_body)"
  shows "kozani_chat env w req_body = (empty_query_response, w)
       \<and> status empty_query_response = 400
       \<and> field (body empty_query_response) (ascii ''answer'') = JStr empty_query_answer
       \<and> field (body empty_query_response) (ascii ''safety'') =
           JObj [(ascii ''ok'', JBool False), (ascii ''flags'', JArr [JStr (ascii ''empty_query'')])]"
  using assms by (simp add: kozani_chat_def kozani_chat_try_def empty_query_response_def)

text \<open>
  The statement at a request with an empty query and a user id.
\<close>

theorem empty_query_short_circuit_witness:
  "\<not> truthy (rawQuery_of demo_chat_no_query)
   \<and> kozani_chat demo_env demo_world demo_chat_no_query = (empty_query_response, demo_world)
   \<and> status empty_query_response = 400"
  using empty_query_short_circuit [where req_body = demo_chat_no_query and env = demo_env and w = demo_world]
  by (simp add: request_simps demo_chat_no_query_def)

subsection \<open>C3: the two turns are saved in order, and a failed save is swallowed\<close>

text \<open>
  Claim C3. For a chat request with a user id, once the generation service has returned
  and the reply has been read from the completion, the handler makes exactly two inserts
  after the generation call: the new utterance with role \<open>user\<close>, then the reply with role
  \<open>assistant\<close>. Each insert is attempted once whatever the outcome of the other; a
  failed insert is logged and leaves no row; the response is the 200 response with the
  reply in every case.
\<close>

theorem persistence_best_effort:
  assumes "truthy (user_id_of b)"
    and "GroqCreate r \<in> set (new_events w (snd (kozani_chat env w b)))"
    and "groq_create env r = Inr completion"
    and "first_content completion = Inr c"
  shows "let answer = (if nullish c then JStr fallback_answer else c);
             res = fst (kozani_chat env w b);
             w' = snd (kozani_chat env w b)
         in res = chat_response answer (snippets_of b) (language_of b) (client_of b)
          \<and> status res = 200
          \<and> new_events w w' =
              [PoolQuery (SELECT_recent_messages (user_id_of b) 8),
               GroqCreate r,
               PoolQuery (INSERT_message (user_id_of b) (JStr (ascii ''user'')) (rawQuery_of b))]
              @ save_log (fault_at w 1)
              @ [PoolQuery (INSERT_message (user_id_of b) (JStr (ascii ''assistant'')) answer)]
              @ save_log (fault_at w 2)
          \<and> messages_table w' =
              messages_table w
              @ (if fault_at w 1 = None
                 then [\<lparr>m_user_id = user_id_of b, m_role = JStr (ascii ''user''),
                         m_content = rawQuery_of b, m_created_at = clock w\<rparr>] else [])
              @ (if fault_at w 2 = None
                 then [\<lparr>m_user_id = user_id_of b, m_role = JStr (ascii ''assistant''),
                         m_content = answer,
                         m_created_at = (if fault_at w 1 = None then Suc (clock w) else clock w)\<rparr>]
                 else [])"
proof -
  have res: "fst (kozani_chat env w b) =
      chat_response (if nullish c then JStr fallback_answer else c)
        (snippets_of b) (language_of b) (client_of b)"
    unfolding chat_reply_computed [OF assms(2,3,4)] by simp
  show ?thesis
    unfolding Let_def
    using chat_reply_world [OF assms refl] res
    by (simp add: chat_response_def)
qed

text \<open>
  The statement at a world in which the history is read and both inserts fail: the
  response is still 200 with the reply, both failures are logged, no row is added.
\<close>

theorem persistence_best_effort_witness:
  "truthy (user_id_of demo_chat)
   \<and> GroqCreate (chat_request demo_turns)
       \<in> set (new_events demo_world_saves_fail
                (snd (kozani_chat demo_env demo_world_saves_fail demo_chat)))
   \<and> groq_create demo_env (chat_request demo_turns) =
       Inr (completion_with (JStr (ascii ''Please rest and drink water.'')))
   \<and> first_content (completion_with (JStr (ascii ''Please rest and drink water.''))) =
       Inr (JStr (ascii ''Please rest and drink water.''))
   \<and> status (fst (kozani_chat demo_env demo_world_saves_fail demo_chat)) = 200
   \<and> field (body (fst (kozani_chat demo_env demo_world_saves_fail demo_chat))) (ascii ''answer'') =
       JStr (ascii ''Please rest and drink water.'')
   \<and> new_events demo_world_saves_fail
        (snd (kozani_chat demo_env demo_world_saves_fail demo_chat)) =
       [PoolQuery (SELECT_recent_messages (JNum 1) 8),
        GroqCreate (chat_request demo_turns),
        PoolQuery (INSERT_message (JNum 1) (JStr (ascii ''user'')) (JStr (ascii ''I feel tired''))),
        ConsoleError (ascii ''Error saving message:'') (StoreError (ascii ''connection reset'')),
        PoolQuery (INSERT_message (JNum 1) (JStr (ascii ''assistant''))
                     (JStr (ascii ''Please rest and drink water.''))),
        ConsoleError (ascii ''Error saving message:'') (StoreError (ascii ''connection reset''))]
   \<and> messages_table (snd (kozani_chat demo_env demo_world_saves_fail demo_chat)) =
       messages_table demo_world_saves_fail"
proof -
  have h1: "truthy (user_id_of demo_chat)"
    by (simp add: request_simps demo_simps)
  have h2: "GroqCreate (chat_request demo_turns)
       \<in> set (new_events demo_world_saves_fail
                (snd (kozani_chat demo_env demo_world_saves_fail demo_chat)))"
    by (simp add: chat_eval demo_simps)
  have h3: "groq_create demo_env (chat_request demo_turns) =
       Inr (completion_with (JStr (ascii ''Please rest and drink water.'')))"
    by (simp add: demo_env_def)
  have h4: "first_content (completion_with (JStr (ascii ''Please rest and drink water.''))) =
       Inr (JStr (ascii ''Please rest and drink water.''))"
    by (simp add: first_content_def completion_with_def get_def)
  from persistence_best_effort [OF h1 h2 h3 h4] h1 h2 h3 h4 show ?thesis
    by (simp add: Let_def request_simps demo_chat_def demo_world_saves_fail_def demo_world_def
        fault_at_def save_log_def chat_response_def)
qed

subsection \<open>C4: an error after validation becomes the fixed 500 apology\<close>

text \<open>
  Claim C4. For a chat request that passes the empty-query validation, an error thrown
  while the prompt is assembled, while the history is read, by the generation service or
  while its completion is read is caught: the response is the fixed apology with status
  500, \<open>safety.ok = false\<close> and the single flag \<open>backend_error\<close>, the same value for
  every error, and the error itself goes to the log only. A response that is not this one
  has status 200.
\<close>

theorem backend_error_boundary:
  assumes "truthy (rawQuery_of b)"
  shows "(\<forall>e. grounding_of env (snippets_of b) = Inl e \<longrightarrow>
            kozani_chat env w b =
              (backend_error_response,
               console_error w (ascii ''Kozani /api/kozani-chat error:'') e))
       \<and> (\<forall>g d. grounding_of env (snippets_of b) = Inr g \<and> truthy (user_id_of b)
                 \<and> next_fault w = Some d \<longrightarrow>
            fst (kozani_chat env w b) = backend_error_response
            \<and> new_events w (snd (kozani_chat env w b)) =
                [PoolQuery (SELECT_recent_messages (user_id_of b) 8),
                 ConsoleError (ascii ''Kozani /api/kozani-chat error:'') (StoreError d)])
       \<and> (\<forall>r e. GroqCreate r \<in> set (new_events w (snd (kozani_chat env w b)))
                 \<and> (groq_create env r = Inl e
                     \<or> (\<exists>completion. groq_create env r = Inr completion
                                      \<and> first_content completion = Inl e)) \<longrightarrow>
            fst (kozani_chat env w b) = backend_error_response
            \<and> new_events w (snd (kozani_chat env w b)) =
                (if truthy (user_id_of b)
                 then [PoolQuery (SELECT_recent_messages (user_id_of b) 8)] else [])
                @ [GroqCreate r,
                   ConsoleError (ascii ''Kozani /api/kozani-chat error:'') e])
       \<and> (fst (kozani_chat env w b) = backend_error_response
            \<or> status (fst (kozani_chat env w b)) = 200)
       \<and> backend_error_response =
           \<lparr>status = 500,
            body = JObj [(ascii ''answer'', JStr backend_error_answer),
                         (ascii ''safety'',
                          JObj [(ascii ''ok'', JBool False),
                                (ascii ''flags'', JArr [JStr (ascii ''backend_error'')])]),
                         (ascii ''meta'', JObj [(ascii ''model'', JStr (ascii ''none''))])]\<rparr>"
proof (intro conjI allI impI)
  fix e assume "grounding_of env (snippets_of b) = Inl e"
  then show "kozani_chat env w b =
              (backend_error_response,
               console_error w (ascii ''Kozani /api/kozani-chat error:'') e)"
    using assms by (simp add: kozani_chat_def chat_try_grounding_error)
next
  fix g d
  assume h: "grounding_of env (snippets_of b) = Inr g \<and> truthy (user_id_of b)
                 \<and> next_fault w = Some d"
  then have "kozani_chat env w b =
     (backend_error_response,
      console_error (w\<lparr>trace := trace w @ [PoolQuery (SELECT_recent_messages (user_id_of b) 8)],
                       faults := tl (faults w)\<rparr>)
        (ascii ''Kozani /api/kozani-chat error:'') (StoreError d))"
    using assms by (simp add: kozani_chat_def chat_try_history_fault)
  then show "fst (kozani_chat env w b) = backend_error_response"
    and "new_events w (snd (kozani_chat env w b)) =
                [PoolQuery (SELECT_recent_messages (user_id_of b) 8),
                 ConsoleError (ascii ''Kozani /api/kozani-chat error:'') (StoreError d)]"
    by (simp_all add: console_error_def new_events_def)
next
  fix r e
  assume h: "GroqCreate r \<in> set (new_events w (snd (kozani_chat env w b)))
                 \<and> (groq_create env r = Inl e
                     \<or> (\<exists>completion. groq_create env r = Inr completion
                                      \<and> first_content completion = Inl e))"
  from chat_generation_error [of r w env b e] h
  have eq: "kozani_chat env w b =
     (backend_error_response,
      console_error ((after_history w (user_id_of b))
                       \<lparr>trace := trace (after_history w (user_id_of b)) @ [GroqCreate r]\<rparr>)
        (ascii ''Kozani /api/kozani-chat error:'') e)"
    by blast
  show "fst (kozani_chat env w b) = backend_error_response"
    by (simp add: eq)
  show "new_events w (snd (kozani_chat env w b)) =
                (if truthy (user_id_of b)
                 then [PoolQuery (SELECT_recent_messages (user_id_of b) 8)] else [])
                @ [GroqCreate r,
                   ConsoleError (ascii ''Kozani /api/kozani-chat error:'') e]"
    by (simp add: eq console_error_def new_events_def after_history_trace)
next
  show "fst (kozani_chat env w b) = backend_error_response
            \<or> status (fst (kozani_chat env w b)) = 200"
    using chat_outcomes [of env w b] assms by auto
next
  show "backend_error_response =
           \<lparr>status = 500,
            body = JObj [(ascii ''answer'', JStr backend_error_answer),
                         (ascii ''safety'',
                          JObj [(ascii ''ok'', JBool False),
                                (ascii ''flags'', JArr [JStr (ascii ''backend_error'')])]),
                         (ascii ''meta'', JObj [(ascii ''model'', JStr (ascii ''none''))])]\<rparr>"
    by (simp add: backend_error_response_def)
qed

text \<open>
  The statement at a generation service that fails with a rate-limit error.
\<close>

theorem backend_error_boundary_witness:
  "truthy (rawQuery_of demo_chat)
   \<and> GroqCreate (chat_request demo_turns)
       \<in> set (new_events demo_world (snd (kozani_chat demo_env_groq_down demo_world demo_chat)))
   \<and> groq_create demo_env_groq_down (chat_request demo_turns) =
       Inl (GroqError (ascii ''429 rate limit''))
   \<and> fst (kozani_chat demo_env_groq_down demo_world demo_chat) = backend_error_response
   \<and> new_events demo_world (snd (kozani_chat demo_env_groq_down demo_world demo_chat)) =
       [PoolQuery (SELECT_recent_messages (JNum 1) 8),
        GroqCreate (chat_request demo_turns),
        ConsoleError (ascii ''Kozani /api/kozani-chat error:'')
          (GroqError (ascii ''429 rate limit''))]"
proof -
  have h1: "truthy (rawQuery_of demo_chat)"
    by (simp add: request_simps demo_simps)
  have h2: "GroqCreate (chat_request demo_turns)
       \<in> set (new_events demo_world (snd (kozani_chat demo_env_groq_down demo_world demo_chat)))"
    by (simp add: chat_eval demo_simps)
  have h3: "groq_create demo_env_groq_down (chat_request demo_turns) =
       Inl (GroqError (ascii ''429 rate limit''))"
    by (simp add: demo_env_groq_down_def)
  from backend_error_boundary [OF h1, where env = demo_env_groq_down and w = demo_world] h2 h3
  have "fst (kozani_chat demo_env_groq_down demo_world demo_chat) = backend_error_response
      \<and> new_events demo_world (snd (kozani_chat demo_env_groq_down demo_world demo_chat)) =
          (if truthy (user_id_of demo_chat)
           then [PoolQuery (SELECT_recent_messages (user_id_of demo_chat) 8)] else [])
          @ [GroqCreate (chat_request demo_turns),
             ConsoleError (ascii ''Kozani /api/kozani-chat error:'')
               (GroqError (ascii ''429 rate limit''))]"
    by blast
  with h1 h2 h3 show ?thesis
    by (simp add: request_simps demo_chat_def)
qed

subsection \<open>C5: the outcomes of a login\<close>

text \<open>
  Claim C5, amended. For a login request with a parsed body: if phone or password is
  missing (falsy), the response is 400 and the world is unchanged, the store untouched.
  Otherwise, when the lookup succeeds: if no user has the phone and hashing and the
  insert succeed, a user is created and the response is 201 with \<open>is_new = true\<close>; if a
  user has the phone and the password verifies, the response is 200 with
  \<open>is_new = false\<close>; if it does not verify, the response is 401; in both cases the users
  are unchanged. When a store call or a call of the credential library fails, the
  response is 500 and the users are unchanged.
\<close>

theorem login_outcomes:
  assumes "\<not> nullish b"
  shows "let phone = field b (ascii ''phone'');
             password = field b (ascii ''password'');
             name = field b (ascii ''name'');
             existing = filter (\<lambda>u. u_phone u = phone) (users_table w);
             res = fst (login env w b);
             w' = snd (login env w b)
         in (\<not> truthy phone \<or> \<not> truthy password \<longrightarrow>
               res = error_response 400 ''Phone and password are required.'' \<and> w' = w)
          \<and> (truthy phone \<and> truthy password \<and> fault_at w 0 = None \<and> existing = [] \<longrightarrow>
               (\<forall>h. bcrypt_hash env password 10 = Inr h \<and> fault_at w 1 = None \<longrightarrow>
                  status res = 201
                  \<and> body res =
                      JObj [(ascii ''user_id'', JNum (of_nat (user_seq w))),
                            (ascii ''name'', if truthy name then name else JNull),
                            (ascii ''phone'', phone),
                            (ascii ''is_new'', JBool True)]
                  \<and> users_table w' =
                      users_table w @
                        [\<lparr>u_id = user_seq w, u_phone = phone, u_password_hash = JStr h,
                          u_name = (if truthy name then name else JNull),
                          u_created_at = clock w\<rparr>]))
          \<and> (truthy phone \<and> truthy password \<and> fault_at w 0 = None \<and> existing \<noteq> [] \<longrightarrow>
               (bcrypt_compare env password (u_password_hash (hd existing)) = Inr True \<longrightarrow>
                  status res = 200
                  \<and> body res =
                      JObj [(ascii ''user_id'', JNum (of_nat (u_id (hd existing)))),
                            (ascii ''name'', u_name (hd existing)),
                            (ascii ''phone'', u_phone (hd existing)),
                            (ascii ''is_new'', JBool False)]
                  \<and> users_table w' = users_table w)
             \<and> (bcrypt_compare env password (u_password_hash (hd existing)) = Inr False \<longrightarrow>
                  res = error_response 401 ''Invalid phone or password.''
                  \<and> users_table w' = users_table w))
          \<and> (truthy phone \<and> truthy password
              \<and> (fault_at w 0 \<noteq> None
                 \<or> existing \<noteq> [] \<and>
                    (\<exists>e. bcrypt_compare env password (u_password_hash (hd existing)) = Inl e)
                 \<or> existing = [] \<and>
                    ((\<exists>e. bcrypt_hash env password 10 = Inl e) \<or> fault_at w 1 \<noteq> None)) \<longrightarrow>
               res = error_response 500 ''Server error during login.''
               \<and> users_table w' = users_table w)"
proof -
  define phone where "phone = field b (ascii ''phone'')"
  define password where "password = field b (ascii ''password'')"
  define name where "name = field b (ascii ''name'')"
  define existing where "existing = filter (\<lambda>u. u_phone u = phone) (users_table w)"
  define w1 where "w1 = w\<lparr>trace := trace w @ [PoolQuery (SELECT_user_by_phone phone)],
                          faults := tl (faults w)\<rparr>"
  have w1: "faults w1 = drop 1 (faults w)" "users_table w1 = users_table w"
    "user_seq w1 = user_seq w" "clock w1 = clock w"
    by (simp_all add: w1_def drop_Suc)
  have f1: "next_fault w1 = fault_at w 1"
    using w1(1) by (rule next_fault_drop)
  note defs = login_def login_try_def Let_def phone_def [symmetric] password_def [symmetric]
    name_def [symmetric]
  have c400: "login env w b = (error_response 400 ''Phone and password are required.'', w)"
    if "\<not> truthy phone \<or> \<not> truthy password"
    using that assms by (auto simp: defs)
  have find_ok: "findUserByPhone w phone =
     (Inr (case existing of [] \<Rightarrow> JNull | u # us \<Rightarrow> user_select u), w1)"
    if "truthy phone" "fault_at w 0 = None"
    using findUserByPhone_ok [of w phone] that truthy_not_nullish [of phone]
    by (simp add: next_fault_0 existing_def w1_def)
  have c201: "status (fst (login env w b)) = 201
      \<and> body (fst (login env w b)) =
          JObj [(ascii ''user_id'', JNum (of_nat (user_seq w))),
                (ascii ''name'', if truthy name then name else JNull),
                (ascii ''phone'', phone),
                (ascii ''is_new'', JBool True)]
      \<and> users_table (snd (login env w b)) =
          users_table w @
            [\<lparr>u_id = user_seq w, u_phone = phone, u_password_hash = JStr h,
              u_name = (if truthy name then name else JNull), u_created_at = clock w\<rparr>]"
    if "truthy phone" "truthy password" "fault_at w 0 = None" "existing = []"
      "bcrypt_hash env password 10 = Inr h" "fault_at w 1 = None" for h
    using that assms f1 w1
    by (simp add: defs find_ok createUser_def query_ok first_row_def user_returning_def
        login_response_def)
  have ex: "(case existing of [] \<Rightarrow> JNull | u # us \<Rightarrow> user_select u) = user_select (hd existing)"
    if "existing \<noteq> []"
    using that by (cases existing) simp_all
  have c200: "status (fst (login env w b)) = 200
      \<and> body (fst (login env w b)) =
          JObj [(ascii ''user_id'', JNum (of_nat (u_id (hd existing)))),
                (ascii ''name'', u_name (hd existing)),
                (ascii ''phone'', u_phone (hd existing)),
                (ascii ''is_new'', JBool False)]
      \<and> users_table (snd (login env w b)) = users_table w"
    if "truthy phone" "truthy password" "fault_at w 0 = None" "existing \<noteq> []"
      "bcrypt_compare env password (u_password_hash (hd existing)) = Inr True"
    using that assms w1
    by (simp add: defs find_ok ex) (simp add: user_select_def login_response_def)
  have c401: "fst (login env w b) = error_response 401 ''Invalid phone or password.''
      \<and> users_table (snd (login env w b)) = users_table w"
    if "truthy phone" "truthy password" "fault_at w 0 = None" "existing \<noteq> []"
      "bcrypt_compare env password (u_password_hash (hd existing)) = Inr False"
    using that assms w1
    by (simp add: defs find_ok ex) (simp add: user_select_def)
  have c500: "fst (login env w b) = error_response 500 ''Server error during login.''
      \<and> users_table (snd (login env w b)) = users_table w"
    if "truthy phone" "truthy password"
      "fault_at w 0 \<noteq> None
       \<or> existing \<noteq> [] \<and>
          (\<exists>e. bcrypt_compare env password (u_password_hash (hd existing)) = Inl e)
       \<or> existing = [] \<and>
          ((\<exists>e. bcrypt_hash env password 10 = Inl e) \<or> fault_at w 1 \<noteq> None)"
  proof (cases "fault_at w 0")
    case (Some d)
    then show ?thesis
      using that(1,2) assms
      by (simp add: defs findUserByPhone_fault next_fault_0 console_error_def)
  next
    case None
    show ?thesis
    proof (cases "existing = []")
      case False
      with that(3) None obtain e
        where "bcrypt_compare env password (u_password_hash (hd existing)) = Inl e"
        by auto
      then show ?thesis
        using that(1,2) assms None False w1
        by (simp add: defs find_ok ex) (simp add: user_select_def console_error_def)
    next
      case True
      with that(3) None
      have "(\<exists>e. bcrypt_hash env password 10 = Inl e) \<or> fault_at w 1 \<noteq> None" by auto
      then show ?thesis
      proof
        assume "\<exists>e. bcrypt_hash env password 10 = Inl e"
        then obtain e where "bcrypt_hash env password 10 = Inl e" ..
        then show ?thesis
          using that(1,2) assms None True w1
          by (simp add: defs find_ok createUser_def console_error_def)
      next
        assume "fault_at w 1 \<noteq> None"
        then obtain d where "next_fault w1 = Some d" using f1 by auto
        then show ?thesis
          using that(1,2) assms None True w1
          by (cases "bcrypt_hash env password 10")
             (simp_all add: defs find_ok createUser_def query_fault console_error_def)
      qed
    qed
  qed
  show ?thesis
    unfolding Let_def phone_def [symmetric] password_def [symmetric] name_def [symmetric]
      existing_def [symmetric]
  proof (intro conjI impI allI)
    assume "\<not> truthy phone \<or> \<not> truthy password"
    from c400 [OF this]
    show "fst (login env w b) = error_response 400 ''Phone and password are required.''"
      and "snd (login env w b) = w" by simp_all
  qed (use c201 c200 c401 c500 in blast)+
qed

text \<open>
  The claim as written promises 201 and a new user whenever no user has the phone. With
  the store down the lookup throws: the response is 500 and no user is created.
\<close>

theorem login_store_failure_counterexample:
  "truthy (field demo_login_new (ascii ''phone''))
   \<and> truthy (field demo_login_new (ascii ''password''))
   \<and> field demo_login_new (ascii ''phone'') \<notin> set (map u_phone (users_table demo_world_store_down))
   \<and> status (fst (login demo_env demo_world_store_down demo_login_new)) = 500
   \<and> users_table (snd (login demo_env demo_world_store_down demo_login_new)) =
       users_table demo_world_store_down"
  by (simp add: login_eval demo_simps error_response_def)

text \<open>
  The amended statement at four requests: no password, an unknown phone, a known phone
  with the right password, a known phone with a wrong password.
\<close>

theorem login_outcomes_witness:
  "\<not> nullish demo_login_no_password
   \<and> fst (login demo_env demo_world demo_login_no_password) =
       error_response 400 ''Phone and password are required.''
   \<and> snd (login demo_env demo_world demo_login_no_password) = demo_world
   \<and> \<not> nullish demo_login_new
   \<and> status (fst (login demo_env demo_world demo_login_new)) = 201
   \<and> field (body (fst (login demo_env demo_world demo_login_new))) (ascii ''is_new'') = JBool True
   \<and> users_table (snd (login demo_env demo_world demo_login_new)) =
       users_table demo_world @
         [\<lparr>u_id = 2, u_phone = JStr (ascii ''0999''), u_password_hash = JStr (ascii ''$2a$10$abc''),
           u_name = JNull, u_created_at = 10\<rparr>]
   \<and> \<not> nullish demo_login_known
   \<and> status (fst (login demo_env demo_world demo_login_known)) = 200
   \<and> field (body (fst (login demo_env demo_world demo_login_known))) (ascii ''is_new'') = JBool False
   \<and> users_table (snd (login demo_env demo_world demo_login_known)) = users_table demo_world
   \<and> \<not> nullish demo_login_wrong
   \<and> fst (login demo_env demo_world demo_login_wrong) =
       error_response 401 ''Invalid phone or password.''
   \<and> users_table (snd (login demo_env demo_world demo_login_wrong)) = users_table demo_world"
proof -
  have n: "\<not> nullish demo_login_no_password" "\<not> nullish demo_login_new"
    "\<not> nullish demo_login_known" "\<not> nullish demo_login_wrong"
    by (simp_all add: demo_simps)
  from login_outcomes [OF n(1), where env = demo_env and w = demo_world]
    login_outcomes [OF n(2), where env = demo_env and w = demo_world]
    login_outcomes [OF n(3), where env = demo_env and w = demo_world]
    login_outcomes [OF n(4), where env = demo_env and w = demo_world] n
  show ?thesis
    by (simp add: Let_def demo_simps fault_at_def)
qed

subsection \<open>C6: the history comes back oldest first\<close>

text \<open>
  Claim C6. For every user id and limit, \<open>getRecentMessages\<close> returns when the store call
  succeeds, and every sequence it returns is the \<open>limit\<close> most recent messages of that
  user, as the tail of the user's messages in order of creation: oldest first, at most
  \<open>limit\<close> of them, all of them messages of that user, and equal to the rows the store
  gives newest first, reversed. One store call is made and the tables are unchanged.
\<close>

theorem getRecentMessages_chronological:
  "(next_fault w = None \<longrightarrow>
      (\<exists>rows w'. getRecentMessages w user_id limit = (Inr rows, w')))
   \<and> (\<forall>rows w'. getRecentMessages w user_id limit = (Inr rows, w') \<longrightarrow>
        (let n = (case limit of None \<Rightarrow> 10 | Some k \<Rightarrow> k);
             history = sort_key m_created_at (messages_of user_id (messages_table w));
             recent = drop (length history - n) history
         in rows = map message_select recent
          \<and> rows = rev (map message_select
                         (take n (newest_first (messages_of user_id (messages_table w)))))
          \<and> sorted (map m_created_at recent)
          \<and> length rows \<le> n
          \<and> (\<forall>m \<in> set recent. m \<in> set (messages_table w) \<and> m_user_id m = user_id)
          \<and> messages_table w' = messages_table w
          \<and> new_events w w' = [PoolQuery (SELECT_recent_messages user_id n)]))"
proof (intro conjI allI impI)
  assume "next_fault w = None"
  then show "\<exists>rows w'. getRecentMessages w user_id limit = (Inr rows, w')"
    by (simp add: getRecentMessages_ok)
next
  fix rows w'
  assume r: "getRecentMessages w user_id limit = (Inr rows, w')"
  from getRecentMessages_returns [OF r] have nf: "next_fault w = None" .
  have "sorted (map m_created_at (sort_key m_created_at (messages_of user_id (messages_table w))))"
    by simp
  then have s: "sorted (map m_created_at
                  (drop k (sort_key m_created_at (messages_of user_id (messages_table w)))))" for k
    by (simp add: drop_map [symmetric] del: sorted_sort_key)
  have m: "m \<in> set (drop k (sort_key m_created_at (messages_of user_id (messages_table w))))
        \<Longrightarrow> m \<in> set (messages_table w) \<and> m_user_id m = user_id" for m k
    by (auto dest!: in_set_dropD simp: messages_of_def)
  show "let n = (case limit of None \<Rightarrow> 10 | Some k \<Rightarrow> k);
             history = sort_key m_created_at (messages_of user_id (messages_table w));
             recent = drop (length history - n) history
         in rows = map message_select recent
          \<and> rows = rev (map message_select
                         (take n (newest_first (messages_of user_id (messages_table w)))))
          \<and> sorted (map m_created_at recent)
          \<and> length rows \<le> n
          \<and> (\<forall>m \<in> set recent. m \<in> set (messages_table w) \<and> m_user_id m = user_id)
          \<and> messages_table w' = messages_table w
          \<and> new_events w w' = [PoolQuery (SELECT_recent_messages user_id n)]"
    using r s m unfolding getRecentMessages_ok [OF nf]
    by (auto simp: Let_def rev_take_newest_first rev_map new_events_def)
qed

text \<open>
  The statement at limits 8 and 1 on a table whose rows are not in order of creation.
\<close>

theorem getRecentMessages_chronological_witness:
  "next_fault demo_world = None
   \<and> fst (getRecentMessages demo_world (JNum 1) (Some 8)) =
       Inr [JObj [(ascii ''role'', JStr (ascii ''user'')), (ascii ''content'', JStr (ascii ''Hi''))],
            JObj [(ascii ''role'', JStr (ascii ''assistant'')),
                  (ascii ''content'', JStr (ascii ''Hello, how are you feeling?''))]]
   \<and> fst (getRecentMessages demo_world (JNum 1) (Some 1)) =
       Inr [JObj [(ascii ''role'', JStr (ascii ''assistant'')),
                  (ascii ''content'', JStr (ascii ''Hello, how are you feeling?''))]]"
proof -
  have nf: "next_fault demo_world = None"
    by (simp add: next_fault_def demo_world_def)
  note t8 = getRecentMessages_chronological [where w = demo_world and limit = "Some 8"
      and user_id = "JNum 1"]
  note t1 = getRecentMessages_chronological [where w = demo_world and limit = "Some 1"
      and user_id = "JNum 1"]
  from t8 nf obtain rows8 w8
    where r8: "getRecentMessages demo_world (JNum 1) (Some 8) = (Inr rows8, w8)" by blast
  from t1 nf obtain rows1 w1
    where r1: "getRecentMessages demo_world (JNum 1) (Some 1) = (Inr rows1, w1)" by blast
  from t8 [unfolded Let_def] r8 have "rows8 =
      rev (map message_select (take 8 (newest_first (messages_of (JNum 1) (messages_table demo_world)))))"
    by (simp only: option.case)
  then have e8: "rows8 =
       [JObj [(ascii ''role'', JStr (ascii ''user'')), (ascii ''content'', JStr (ascii ''Hi''))],
        JObj [(ascii ''role'', JStr (ascii ''assistant'')),
              (ascii ''content'', JStr (ascii ''Hello, how are you feeling?''))]]"
    by (simp add: demo_world_def messages_of_def message_select_def newest_first_def)
  from t1 [unfolded Let_def] r1 have "rows1 =
      rev (map message_select (take 1 (newest_first (messages_of (JNum 1) (messages_table demo_world)))))"
    by (simp only: option.case)
  then have e1: "rows1 =
       [JObj [(ascii ''role'', JStr (ascii ''assistant'')),
              (ascii ''content'', JStr (ascii ''Hello, how are you feeling?''))]]"
    by (simp add: demo_world_def messages_of_def message_select_def newest_first_def)
  from nf r8 r1 e8 e1 show ?thesis by simp
qed

subsection \<open>C7: the fallback reply\<close>

text \<open>
  Claim C7, amended. When the generation service returns a completion, the response has
  status 200 and its answer is the fixed fallback apology if the content of the first
  completion is absent (undefined or null), and that content as it is otherwise, also
  when it is the empty string.
\<close>

theorem answer_fallback_on_absent_content:
  assumes "GroqCreate r \<in> set (new_events w (snd (kozani_chat env w b)))"
    and "groq_create env r = Inr completion"
    and "first_content completion = Inr c"
  shows "status (fst (kozani_chat env w b)) = 200
       \<and> field (body (fst (kozani_chat env w b))) (ascii ''answer'') =
           (if c = JUndefined \<or> c = JNull then JStr fallback_answer else c)"
proof -
  have "nullish c \<longleftrightarrow> c = JUndefined \<or> c = JNull" by (cases c) simp_all
  then show ?thesis
    unfolding chat_reply_computed [OF assms]
    by (simp add: chat_response_def)
qed

text \<open>
  The claim as written has the fallback for an empty reply text too. With a completion
  whose content is the empty string the answer is the empty string.
\<close>

theorem empty_reply_counterexample:
  "GroqCreate (chat_request demo_turns)
       \<in> set (new_events demo_world (snd (kozani_chat demo_env_empty_reply demo_world demo_chat)))
   \<and> groq_create demo_env_empty_reply (chat_request demo_turns) = Inr (completion_with (JStr []))
   \<and> first_content (completion_with (JStr [])) = Inr (JStr [])
   \<and> status (fst (kozani_chat demo_env_empty_reply demo_world demo_chat)) = 200
   \<and> field (body (fst (kozani_chat demo_env_empty_reply demo_world demo_chat))) (ascii ''answer'') =
       JStr []
   \<and> JStr [] \<noteq> JStr fallback_answer"
  by (simp add: chat_eval demo_simps chat_response_def fallback_answer_def)

text \<open>
  The amended statement at a completion whose content is null.
\<close>

theorem answer_fallback_on_absent_content_witness:
  "GroqCreate (chat_request demo_turns)
       \<in> set (new_events demo_world (snd (kozani_chat demo_env_null_reply demo_world demo_chat)))
   \<and> groq_create demo_env_null_reply (chat_request demo_turns) = Inr (completion_with JNull)
   \<and> first_content (completion_with JNull) = Inr JNull
   \<and> status (fst (kozani_chat demo_env_null_reply demo_world demo_chat)) = 200
   \<and> field (body (fst (kozani_chat demo_env_null_reply demo_world demo_chat))) (ascii ''answer'') =
       JStr fallback_answer"
proof -
  have h1: "GroqCreate (chat_request demo_turns)
       \<in> set (new_events demo_world (snd (kozani_chat demo_env_null_reply demo_world demo_chat)))"
    by (simp add: chat_eval demo_simps)
  have h2: "groq_create demo_env_null_reply (chat_request demo_turns) = Inr (completion_with JNull)"
    by (simp add: demo_env_null_reply_def)
  have h3: "first_content (completion_with JNull) = Inr JNull"
    by (simp add: first_content_def completion_with_def get_def)
  from answer_fallback_on_absent_content [OF h1 h2 h3] h1 h2 h3 show ?thesis
    by simp
qed

subsection \<open>C8: the shape of a successful response\<close>

text \<open>
  Claim C8, amended. A response with status 200 has \<open>safety = { ok: true, flags: [] }\<close>;
  its \<open>meta.model\<close> is the model named in the generation call that was made,
  \<open>meta.provider\<close> is \<open>groq\<close>, \<open>meta.language\<close> and \<open>meta.client\<close> are those of the
  request (\<open>en\<close> for a request without language), and \<open>meta.grounded\<close> is true if and
  only if the array of snippets is not empty, whatever the grounding block assembled from
  it.
\<close>

theorem success_response_shape:
  assumes "status (fst (kozani_chat env w b)) = 200"
  shows "\<exists>answer xs r.
           snippets_of b = JArr xs
         \<and> GroqCreate r \<in> set (new_events w (snd (kozani_chat env w b)))
         \<and> model r = ascii ''llama-3.1-8b-instant''
         \<and> body (fst (kozani_chat env w b)) =
             JObj [(ascii ''answer'', answer),
                   (ascii ''safety'', JObj [(ascii ''ok'', JBool True), (ascii ''flags'', JArr [])]),
                   (ascii ''meta'',
                    JObj [(ascii ''model'', JStr (model r)),
                          (ascii ''provider'', JStr (ascii ''groq'')),
                          (ascii ''grounded'', JBool (xs \<noteq> [])),
                          (ascii ''language'', language_of b),
                          (ascii ''client'', client_of b)])]"
proof -
  from chat_outcomes [of env w b] assms
  obtain g r c where g: "grounding_of env (snippets_of b) = Inr g"
    and ev: "GroqCreate r \<in> set (new_events w (snd (kozani_chat env w b)))"
    and res: "fst (kozani_chat env w b) =
             chat_response (if nullish c then JStr fallback_answer else c)
               (snippets_of b) (language_of b) (client_of b)"
    by auto
  from grounding_array [OF g] obtain xs where xs: "snippets_of b = JArr xs" by blast
  from generation_call(3) [OF ev] have m: "model r = ascii ''llama-3.1-8b-instant''"
    by (auto simp: chat_request_def)
  show ?thesis
    using xs ev m unfolding res
    by (auto simp: chat_response_def)
qed

text \<open>
  The claim as written ties \<open>grounded\<close> to the grounding block. With one snippet whose
  text is empty the grounding block is empty and \<open>grounded\<close> is true.
\<close>

theorem grounded_flag_counterexample:
  "grounding_of demo_env (snippets_of demo_chat_empty_snippet) = Inr []
   \<and> status (fst (kozani_chat demo_env demo_world demo_chat_empty_snippet)) = 200
   \<and> field (field (body (fst (kozani_chat demo_env demo_world demo_chat_empty_snippet)))
              (ascii ''meta'')) (ascii ''grounded'') = JBool True"
  by (simp add: chat_eval demo_simps chat_response_def)

text \<open>
  The amended statement at that request.
\<close>

theorem success_response_shape_witness:
  "status (fst (kozani_chat demo_env demo_world demo_chat_empty_snippet)) = 200
   \<and> (\<exists>answer r.
          GroqCreate r
            \<in> set (new_events demo_world
                     (snd (kozani_chat demo_env demo_world demo_chat_empty_snippet)))
        \<and> model r = ascii ''llama-3.1-8b-instant''
        \<and> body (fst (kozani_chat demo_env demo_world demo_chat_empty_snippet)) =
            JObj [(ascii ''answer'', answer),
                  (ascii ''safety'', JObj [(ascii ''ok'', JBool True), (ascii ''flags'', JArr [])]),
                  (ascii ''meta'',
                   JObj [(ascii ''model'', JStr (ascii ''llama-3.1-8b-instant'')),
                         (ascii ''provider'', JStr (ascii ''groq'')),
                         (ascii ''grounded'', JBool True),
                         (ascii ''language'', JStr (ascii ''en'')),
                         (ascii ''client'', JStr (ascii ''android''))])])"
proof -
  have h: "status (fst (kozani_chat demo_env demo_world demo_chat_empty_snippet)) = 200"
    by (simp add: chat_eval demo_simps)
  have s: "snippets_of demo_chat_empty_snippet = JArr [JObj [(ascii ''text'', JStr [])]]"
    "language_of demo_chat_empty_snippet = JStr (ascii ''en'')"
    "client_of demo_chat_empty_snippet = JStr (ascii ''android'')"
    by (simp_all add: request_simps demo_chat_empty_snippet_def)
  from success_response_shape [OF h] h show ?thesis
    unfolding s by auto
qed

subsection \<open>C9: validation is falsiness of the query\<close>

text \<open>
  Claim C9. The response is the empty-query response exactly when the query is falsy:
  0, false, null, undefined and the empty string are rejected. A query that is a
  non-empty string, a string of white space in particular, passes: the status is not
  400, every generation call made ends with that string as the user turn, every insert
  with role \<open>user\<close> carries that string, both unchanged; the generation call is made
  when the grounding is assembled and the history is read, and the insert is made when
  there is a user id and the reply is computed.
\<close>

theorem query_validation_is_falsiness:
  "(fst (kozani_chat env w b) = empty_query_response \<longleftrightarrow> \<not> truthy (rawQuery_of b))
   \<and> (rawQuery_of b \<in> {JNum 0, JBool False, JNull, JUndefined, JStr []} \<longrightarrow>
        kozani_chat env w b = (empty_query_response, w))
   \<and> (\<forall>s. rawQuery_of b = JStr s \<and> s \<noteq> [] \<longrightarrow>
        status (fst (kozani_chat env w b)) \<noteq> 400
        \<and> (\<forall>r. GroqCreate r \<in> set (new_events w (snd (kozani_chat env w b))) \<longrightarrow>
              last (messages r) = \<lparr>role = JStr (ascii ''user''), content = JStr s\<rparr>)
        \<and> (\<forall>u c. PoolQuery (INSERT_message u (JStr (ascii ''user'')) c)
                     \<in> set (new_events w (snd (kozani_chat env w b))) \<longrightarrow> c = JStr s)
        \<and> (\<forall>g. grounding_of env (snippets_of b) = Inr g
                \<and> (truthy (user_id_of b) \<longrightarrow> next_fault w = None) \<longrightarrow>
              (\<exists>r. GroqCreate r \<in> set (new_events w (snd (kozani_chat env w b)))))
        \<and> (\<forall>r completion c. truthy (user_id_of b)
                \<and> GroqCreate r \<in> set (new_events w (snd (kozani_chat env w b)))
                \<and> groq_create env r = Inr completion \<and> first_content completion = Inr c \<longrightarrow>
              PoolQuery (INSERT_message (user_id_of b) (JStr (ascii ''user'')) (JStr s))
                \<in> set (new_events w (snd (kozani_chat env w b)))))"
proof (intro conjI allI impI)
  show "fst (kozani_chat env w b) = empty_query_response \<longleftrightarrow> \<not> truthy (rawQuery_of b)"
    by (rule empty_query_response_iff)
next
  assume "rawQuery_of b \<in> {JNum 0, JBool False, JNull, JUndefined, JStr []}"
  then have "\<not> truthy (rawQuery_of b)" by auto
  then show "kozani_chat env w b = (empty_query_response, w)"
    by (simp add: kozani_chat_def kozani_chat_try_def)
next
  fix s assume s: "rawQuery_of b = JStr s \<and> s \<noteq> []"
  then have q: "truthy (rawQuery_of b)" by simp
  with chat_outcomes [of env w b]
  show "status (fst (kozani_chat env w b)) \<noteq> 400" by auto
  {
    fix r assume "GroqCreate r \<in> set (new_events w (snd (kozani_chat env w b)))"
    from generation_call(3) [OF this] s
    show "last (messages r) = \<lparr>role = JStr (ascii ''user''), content = JStr s\<rparr>"
      by (auto simp: chat_request_def prompt_turns_def)
  }
  {
    fix u c
    assume "PoolQuery (INSERT_message u (JStr (ascii ''user'')) c)
                     \<in> set (new_events w (snd (kozani_chat env w b)))"
    from chat_user_insert [OF this] s show "c = JStr s" by simp
  }
  {
    fix g
    assume "grounding_of env (snippets_of b) = Inr g
                \<and> (truthy (user_id_of b) \<longrightarrow> next_fault w = None)"
    then have g: "grounding_of env (snippets_of b) = Inr g"
      and nf: "truthy (user_id_of b) \<longrightarrow> next_fault w = None" by blast+
    from chat_generation_events [OF q g nf]
    show "\<exists>r. GroqCreate r \<in> set (new_events w (snd (kozani_chat env w b)))"
      by auto
  }
  {
    fix r completion c
    assume h: "truthy (user_id_of b)
                \<and> GroqCreate r \<in> set (new_events w (snd (kozani_chat env w b)))
                \<and> groq_create env r = Inr completion \<and> first_content completion = Inr c"
    then have "new_events w (snd (kozani_chat env w b)) =
              [PoolQuery (SELECT_recent_messages (user_id_of b) 8),
               GroqCreate r,
               PoolQuery (INSERT_message (user_id_of b) (JStr (ascii ''user'')) (rawQuery_of b))]
              @ save_log (fault_at w 1)
              @ [PoolQuery (INSERT_message (user_id_of b) (JStr (ascii ''assistant''))
                   (if nullish c then JStr fallback_answer else c))]
              @ save_log (fault_at w 2)"
      using chat_reply_world(1) [of b r w env completion c] by blast
    then show "PoolQuery (INSERT_message (user_id_of b) (JStr (ascii ''user'')) (JStr s))
                \<in> set (new_events w (snd (kozani_chat env w b)))"
      using s by simp
  }
qed

text \<open>
  The statement at the query of a single space, and at the query 0.
\<close>

theorem query_validation_is_falsiness_witness:
  "rawQuery_of demo_chat_blank = JStr [0x20]
   \<and> is_js_space 0x20
   \<and> status (fst (kozani_chat demo_env demo_world demo_chat_blank)) \<noteq> 400
   \<and> (\<exists>r. GroqCreate r \<in> set (new_events demo_world
                                  (snd (kozani_chat demo_env demo_world demo_chat_blank)))
          \<and> last (messages r) = \<lparr>role = JStr (ascii ''user''), content = JStr [0x20]\<rparr>
          \<and> groq_create demo_env r =
              Inr (completion_with (JStr (ascii ''Please rest and drink water.''))))
   \<and> first_content (completion_with (JStr (ascii ''Please rest and drink water.''))) =
       Inr (JStr (ascii ''Please rest and drink water.''))
   \<and> PoolQuery (INSERT_message (JNum 1) (JStr (ascii ''user'')) (JStr [0x20]))
       \<in> set (new_events demo_world (snd (kozani_chat demo_env demo_world demo_chat_blank)))
   \<and> rawQuery_of (JObj [(ascii ''query'', JNum 0)]) = JNum 0
   \<and> kozani_chat demo_env demo_world (JObj [(ascii ''query'', JNum 0)]) =
       (empty_query_response, demo_world)"
proof -
  have q: "rawQuery_of demo_chat_blank = JStr [0x20]"
    by (simp add: request_simps demo_chat_blank_def ascii_def)
  have u: "user_id_of demo_chat_blank = JNum 1" "snippets_of demo_chat_blank = JArr []"
    by (simp_all add: request_simps demo_chat_blank_def)
  have sp: "is_js_space 0x20"
    by (simp add: is_js_space_def)
  have g: "grounding_of demo_env (JArr []) = Inr []"
    by (simp add: grounding_of_def)
  have nf: "next_fault demo_world = None"
    by (simp add: next_fault_def demo_world_def)
  have z: "rawQuery_of (JObj [(ascii ''query'', JNum 0)]) = JNum 0"
    by (simp add: request_simps)
  have h4: "first_content (completion_with (JStr (ascii ''Please rest and drink water.''))) =
       Inr (JStr (ascii ''Please rest and drink water.''))"
    by (simp add: first_content_def completion_with_def get_def)
  note t = query_validation_is_falsiness [where env = demo_env and w = demo_world
      and b = demo_chat_blank]
  from t q have st: "status (fst (kozani_chat demo_env demo_world demo_chat_blank)) \<noteq> 400"
    by simp
  from t q u g nf
  obtain r where r: "GroqCreate r \<in> set (new_events demo_world
                                  (snd (kozani_chat demo_env demo_world demo_chat_blank)))"
    by auto
  with t q have l: "last (messages r) = \<lparr>role = JStr (ascii ''user''), content = JStr [0x20]\<rparr>"
    by simp
  have c: "groq_create demo_env r =
              Inr (completion_with (JStr (ascii ''Please rest and drink water.'')))"
    by (simp add: demo_env_def)
  from t q u r c h4
  have p: "PoolQuery (INSERT_message (JNum 1) (JStr (ascii ''user'')) (JStr [0x20]))
       \<in> set (new_events demo_world (snd (kozani_chat demo_env demo_world demo_chat_blank)))"
    by auto
  from query_validation_is_falsiness [where env = demo_env and w = demo_world
      and b = "JObj [(ascii ''query'', JNum 0)]"] z
  have e: "kozani_chat demo_env demo_world (JObj [(ascii ''query'', JNum 0)]) =
       (empty_query_response, demo_world)"
    by simp
  from q sp st r l c h4 p z e show ?thesis by blast
qed

subsection \<open>C10: snippets that are not an array\<close>

text \<open>
  Claim C10, amended. When the snippets of a chat request are present and not an array,
  assembling the grounding throws a TypeError, no generation call and no store call is
  made and no message is saved. If the query passes the validation, the response is the
  500 \<open>backend_error\<close> apology and the error is logged; if the query is empty or
  missing, the response is the 400 empty-query response.
\<close>

theorem non_array_snippets_backend_error:
  assumes "\<forall>xs. snippets_of b \<noteq> JArr xs"
  shows "\<exists>d. grounding_of env (snippets_of b) = Inl (TypeError d)
          \<and> (truthy (rawQuery_of b) \<longrightarrow>
               kozani_chat env w b =
                 (backend_error_response,
                  console_error w (ascii ''Kozani /api/kozani-chat error:'') (TypeError d))
               \<and> new_events w (snd (kozani_chat env w b)) =
                   [ConsoleError (ascii ''Kozani /api/kozani-chat error:'') (TypeError d)])
          \<and> (\<not> truthy (rawQuery_of b) \<longrightarrow> kozani_chat env w b = (empty_query_response, w))
          \<and> (\<forall>r. GroqCreate r \<notin> set (new_events w (snd (kozani_chat env w b))))
          \<and> (\<forall>s. PoolQuery s \<notin> set (new_events w (snd (kozani_chat env w b))))
          \<and> messages_table (snd (kozani_chat env w b)) = messages_table w"
proof -
  from grounding_not_array [OF assms]
  obtain d where d: "grounding_of env (snippets_of b) = Inl (TypeError d)" by blast
  have t: "kozani_chat env w b =
                 (backend_error_response,
                  console_error w (ascii ''Kozani /api/kozani-chat error:'') (TypeError d))"
    if "truthy (rawQuery_of b)"
    using that d by (simp add: kozani_chat_def chat_try_grounding_error)
  have f: "kozani_chat env w b = (empty_query_response, w)" if "\<not> truthy (rawQuery_of b)"
    using that by (simp add: kozani_chat_def kozani_chat_try_def)
  show ?thesis
  proof (cases "truthy (rawQuery_of b)")
    case True
    with d t show ?thesis
      by (auto simp: console_error_def new_events_def)
  next
    case False
    with d f show ?thesis by auto
  qed
qed

text \<open>
  The claim as written promises 500 for every such request. A request with snippets
  that are a string and no query is answered with 400.
\<close>

theorem snippets_without_query_counterexample:
  "snippets_of demo_chat_only_snippets = JStr (ascii ''rest well'')
   \<and> kozani_chat demo_env demo_world demo_chat_only_snippets = (empty_query_response, demo_world)
   \<and> status (fst (kozani_chat demo_env demo_world demo_chat_only_snippets)) = 400"
  by (simp add: chat_eval demo_simps)

text \<open>
  The amended statement at a request with a query and snippets that are a string.
\<close>

theorem non_array_snippets_backend_error_witness:
  "snippets_of demo_chat_bad_snippets = JStr (ascii ''rest well'')
   \<and> truthy (rawQuery_of demo_chat_bad_snippets)
   \<and> fst (kozani_chat demo_env demo_world demo_chat_bad_snippets) = backend_error_response
   \<and> (\<exists>d. new_events demo_world (snd (kozani_chat demo_env demo_world demo_chat_bad_snippets)) =
            [ConsoleError (ascii ''Kozani /api/kozani-chat error:'') (TypeError d)])
   \<and> messages_table (snd (kozani_chat demo_env demo_world demo_chat_bad_snippets)) =
       messages_table demo_world"
proof -
  have s: "snippets_of demo_chat_bad_snippets = JStr (ascii ''rest well'')"
    and q: "truthy (rawQuery_of demo_chat_bad_snippets)"
    by (simp_all add: request_simps demo_chat_bad_snippets_def)
  from s have h: "\<forall>xs. snippets_of demo_chat_bad_snippets \<noteq> JArr xs" by simp
  from non_array_snippets_backend_error [OF h, where env = demo_env and w = demo_world] q s
  show ?thesis by auto
qed

end
